theory Spec2Isabelle
  imports Complex_Main
begin

section \<open>Data model\<close>

text \<open>
  The analyser keeps its telemetry in plain JavaScript objects and arrays. JavaScript
  numbers are modelled as real numbers: arithmetic is exact, and the values NaN and
  Infinity do not occur. A telemetry sample is the object pushed by \<^verbatim>\<open>parseCsvData\<close>.
\<close>

record sample =
  time :: real
  speed :: real
  latAcc :: real
  lonAcc :: real
  altitude :: real
  lat :: real
  lon :: real
  heading :: real

text \<open>
  A sector border (gate) is the object returned by \<^verbatim>\<open>createPerpendicularLine\<close>. Its
  \<^verbatim>\<open>time\<close> field is called \<open>btime\<close> here, since a sample has a field of that name;
  the two vectors are pairs (lat, lon).
\<close>

record border =
  btime :: real
  centerLat :: real
  centerLon :: real
  trajectoryVector :: "real \<times> real"
  perpVector :: "real \<times> real"
  startLat :: real
  startLon :: real
  endLat :: real
  endLon :: real

text \<open>The object returned by \<^verbatim>\<open>lineSegmentIntersection\<close>; \<^verbatim>\<open>null\<close> is \<open>None\<close>.\<close>

record intersection =
  i_lon :: real
  i_lat :: real
  i_t :: real

text \<open>
  The fields of the long-lived \<^verbatim>\<open>VideoFrameAnalyzer\<close> object that the analysis reads and
  writes. An entry of \<^verbatim>\<open>diffToBestData\<close> is \<^verbatim>\<open>null\<close> (\<open>None\<close>) or a number.
\<close>

record analyzer =
  telemetryData :: "sample list"
  lapTimes :: "real list"
  lapStartTimes :: "real list"
  sectorBorders :: "border list"
  lapSectorTimes :: "real list list"
  bestLapData :: "sample list"
  bestLapIndex :: int
  diffToBestData :: "real option list"

text \<open>
  Reading a property of \<^verbatim>\<open>undefined\<close> throws a \<^verbatim>\<open>TypeError\<close>; the parser throws
  \<^verbatim>\<open>Error\<close> objects with a message.
\<close>

datatype error = TypeError | Error string

section \<open>Lap indexer\<close>

text \<open>
  In this section \<open>laps\<close> is the array \<^verbatim>\<open>lapTimes\<close>, and \<open>best\<close>, \<open>bestTime\<close> are the
  loop variables \<^verbatim>\<open>bestLapIndex\<close>, \<^verbatim>\<open>bestLapTime\<close>.

  \<^verbatim>\<open>calculateLapStartTimes\<close>: the out lap starts at 0; the running sum is pushed after
  every lap but the last one.
\<close>

fun lapStartLoop :: "real list \<Rightarrow> real \<Rightarrow> real list" where
  "lapStartLoop [] cumulativeTime = []"
| "lapStartLoop [t] cumulativeTime = []"
| "lapStartLoop (t # u # ts) cumulativeTime =
     (cumulativeTime + t) # lapStartLoop (u # ts) (cumulativeTime + t)"

definition calculateLapStartTimes :: "real list \<Rightarrow> real list" where
  "calculateLapStartTimes laps = 0 # lapStartLoop laps 0"

text \<open>
  \<^verbatim>\<open>findBestLapIndex\<close>: the scan starts at index 1 when there is more than one lap, at
  index 0 otherwise, and replaces the candidate only on a strictly smaller lap time.
  The result is -1 for no laps. \<^verbatim>\<open>generateSectorSplits\<close> contains the same scan inline,
  after its own check that there are lap times; \<open>bestLapScan\<close> is that common part.
\<close>

function bestLapLoop :: "real list \<Rightarrow> nat \<Rightarrow> nat \<Rightarrow> real \<Rightarrow> nat" where
  "bestLapLoop laps i best bestTime =
     (if i < length laps then
        (if laps ! i < bestTime
         then bestLapLoop laps (Suc i) i (laps ! i)
         else bestLapLoop laps (Suc i) best bestTime)
      else best)"
  by pat_completeness auto
termination
  by (relation "measure (\<lambda>(laps, i, b, t). length laps - i)") auto

definition bestLapScan :: "real list \<Rightarrow> nat" where
  "bestLapScan laps =
     (let best = (if length laps > 1 then 1 else 0)
      in bestLapLoop laps (best + 1) best (laps ! best))"

definition findBestLapIndex :: "real list \<Rightarrow> int" where
  "findBestLapIndex laps = (if laps = [] then - 1 else int (bestLapScan laps))"

section \<open>Gate-crossing geometry\<close>

text \<open>
  \<^verbatim>\<open>lineSegmentIntersection\<close>: the determinant formula on the segments (x1,y1)-(x2,y2)
  and (x3,y3)-(x4,y4); near-parallel pairs and intersections outside either segment
  give \<^verbatim>\<open>null\<close>.
\<close>

definition lineSegmentIntersection ::
  "real \<Rightarrow> real \<Rightarrow> real \<Rightarrow> real \<Rightarrow> real \<Rightarrow> real \<Rightarrow> real \<Rightarrow> real \<Rightarrow> intersection option" where
  "lineSegmentIntersection x1 y1 x2 y2 x3 y3 x4 y4 =
     (let denom = (x1 - x2) * (y3 - y4) - (y1 - y2) * (x3 - x4)
      in if \<bar>denom\<bar> < 1 / 10 ^ 10 then None
         else
           let t = ((x1 - x3) * (y3 - y4) - (y1 - y3) * (x3 - x4)) / denom;
               u = - ((x1 - x2) * (y1 - y3) - (y1 - y2) * (x1 - x3)) / denom
           in if t \<ge> 0 \<and> t \<le> 1 \<and> u \<ge> 0 \<and> u \<le> 1
              then Some \<lparr> i_lon = x1 + t * (x2 - x1), i_lat = y1 + t * (y2 - y1), i_t = t \<rparr>
              else None)"

text \<open>\<^verbatim>\<open>distanceToLineSegment\<close>: distance from a sample to the finite border segment.\<close>

definition distanceToLineSegment :: "sample \<Rightarrow> border \<Rightarrow> real" where
  "distanceToLineSegment point border =
     (let x = lon point; y = lat point;
          x1 = startLon border; y1 = startLat border;
          x2 = endLon border; y2 = endLat border;
          segmentLengthSquared = (x2 - x1) * (x2 - x1) + (y2 - y1) * (y2 - y1)
      in if segmentLengthSquared = 0
         then sqrt ((x - x1) * (x - x1) + (y - y1) * (y - y1))
         else
           let t = max 0 (min 1 (((x - x1) * (x2 - x1) + (y - y1) * (y2 - y1)) / segmentLengthSquared));
               closestX = x1 + t * (x2 - x1);
               closestY = y1 + t * (y2 - y1)
           in sqrt ((x - closestX) * (x - closestX) + (y - closestY) * (y - closestY)))"

text \<open>
  The call of \<^verbatim>\<open>lineSegmentIntersection\<close> in the first loop of \<^verbatim>\<open>findBorderCrossing\<close>:
  trajectory segment from \<open>point1\<close> to \<open>point2\<close> (longitude is x, latitude is y) against
  the border segment.
\<close>

definition pairIntersection :: "sample \<Rightarrow> sample \<Rightarrow> border \<Rightarrow> intersection option" where
  "pairIntersection point1 point2 border =
     lineSegmentIntersection (lon point1) (lat point1) (lon point2) (lat point2)
       (startLon border) (startLat border) (endLon border) (endLat border)"

text \<open>
  First loop of \<^verbatim>\<open>findBorderCrossing\<close> over the consecutive pairs: the first
  intersection whose interpolated time passes the validation is returned; \<open>None\<close>
  means that the loop ran to its end.
\<close>

fun crossingScan :: "sample list \<Rightarrow> border \<Rightarrow> real option" where
  "crossingScan (point1 # point2 # rest) border =
     (case pairIntersection point1 point2 border of
        None \<Rightarrow> crossingScan (point2 # rest) border
      | Some intersection \<Rightarrow>
          let t = max 0 (min 1 (i_t intersection));
              preciseCrossingTime = time point1 + t * (time point2 - time point1)
          in if preciseCrossingTime \<ge> time point1 \<and> preciseCrossingTime \<le> time point2
             then Some preciseCrossingTime
             else crossingScan (point2 # rest) border)"
| "crossingScan lapData border = None"

text \<open>Second loop of \<^verbatim>\<open>findBorderCrossing\<close>: the closest point, replaced on a strictly
  smaller distance only.\<close>

fun closestScan :: "sample list \<Rightarrow> border \<Rightarrow> real \<Rightarrow> real \<Rightarrow> real" where
  "closestScan [] border minDistance bestCrossingTime = bestCrossingTime"
| "closestScan (point # rest) border minDistance bestCrossingTime =
     (let distance = distanceToLineSegment point border
      in if distance < minDistance
         then closestScan rest border distance (time point)
         else closestScan rest border minDistance bestCrossingTime)"

text \<open>
  \<^verbatim>\<open>findBorderCrossing\<close>. The first statement reads \<^verbatim>\<open>lapData[0].time\<close>, which throws
  a \<^verbatim>\<open>TypeError\<close> on an empty array.
\<close>

definition findBorderCrossing :: "sample list \<Rightarrow> border \<Rightarrow> error + real" where
  "findBorderCrossing lapData border =
     (case lapData of
        [] \<Rightarrow> Inl TypeError
      | first # others \<Rightarrow>
          (case crossingScan lapData border of
             Some preciseCrossingTime \<Rightarrow> Inr preciseCrossingTime
           | None \<Rightarrow>
               Inr (closestScan lapData border (distanceToLineSegment first border) (time first))))"


text \<open>
  For comparison with \<open>distanceToLineSegment\<close>: the distance from a sample to the point
  of the border segment at the parameter \<open>s\<close> (0 is the start point, 1 the end point).
\<close>

definition distanceToBorderPoint :: "sample \<Rightarrow> border \<Rightarrow> real \<Rightarrow> real" where
  "distanceToBorderPoint point border s =
     sqrt ((lon point - (startLon border + s * (endLon border - startLon border)))\<^sup>2
         + (lat point - (startLat border + s * (endLat border - startLat border)))\<^sup>2)"

section \<open>Sector segmentation\<close>

text \<open>
  The objects built inside \<^verbatim>\<open>findAccelerationPeriods\<close>: a sector (start, end, duration),
  a deceleration period (a sector with the indices of its first and last sample) and
  the acceleration period returned to the caller (a sector with three further fields).
\<close>

record sector =
  startTime :: real
  endTime :: real
  duration :: real

record decelPeriod = sector +
  startIndex :: nat
  endIndex :: nat

record accelerationPeriod = sector +
  maxSpeed :: real
  maxSpeedTime :: real
  speedIncrease :: real

text \<open>
  Step 1 of \<^verbatim>\<open>findAccelerationPeriods\<close>, the loop over \<open>i = 1, \<dots>, length - 1\<close> with
  \<open>previous = lapData[i - 1]\<close> and \<open>current = lapData[i]\<close>. The open period
  \<^verbatim>\<open>currentDecelPeriod\<close> holds a start time and a start index, or is \<^verbatim>\<open>null\<close>. Pairs
  with a non-positive time difference are skipped.
\<close>

fun decelLoop ::
  "sample list \<Rightarrow> nat \<Rightarrow> (real \<times> nat) option \<Rightarrow> decelPeriod list
    \<Rightarrow> (real \<times> nat) option \<times> decelPeriod list" where
  "decelLoop (previous # current # rest) i currentDecelPeriod decelerationPeriods =
     (let timeDiff = time current - time previous
      in if timeDiff \<le> 0
         then decelLoop (current # rest) (i + 1) currentDecelPeriod decelerationPeriods
         else
           let acceleration = (speed current - speed previous) / timeDiff;
               opened = (if acceleration < - 0.5 \<and> currentDecelPeriod = None
                         then Some (time previous, i - 1) else currentDecelPeriod)
           in (case opened of
                 Some (start, startIdx) \<Rightarrow>
                   if acceleration \<ge> - 0.5
                   then decelLoop (current # rest) (i + 1) None
                          (if time current - start \<ge> 1.0
                           then decelerationPeriods @
                             [\<lparr> startTime = start, endTime = time current,
                                duration = time current - start,
                                startIndex = startIdx, endIndex = i \<rparr>]
                           else decelerationPeriods)
                   else decelLoop (current # rest) (i + 1) opened decelerationPeriods
               | None \<Rightarrow> decelLoop (current # rest) (i + 1) None decelerationPeriods))"
| "decelLoop lapData i currentDecelPeriod decelerationPeriods =
     (currentDecelPeriod, decelerationPeriods)"

text \<open>The statement after the loop: a period still open ends at the last sample.\<close>

definition decelerationPeriodsOf :: "sample list \<Rightarrow> decelPeriod list" where
  "decelerationPeriodsOf lapData =
     (case decelLoop lapData 1 None [] of
        (None, decelerationPeriods) \<Rightarrow> decelerationPeriods
      | (Some (start, startIdx), decelerationPeriods) \<Rightarrow>
          let lastPoint = last lapData
          in if time lastPoint - start \<ge> 0.2
             then decelerationPeriods @
               [\<lparr> startTime = start, endTime = time lastPoint,
                  duration = time lastPoint - start,
                  startIndex = startIdx, endIndex = length lapData - 1 \<rparr>]
             else decelerationPeriods)"

text \<open>Step 2: the sectors between the deceleration periods.\<close>

fun sectorsLoop :: "decelPeriod list \<Rightarrow> real \<Rightarrow> sector list \<Rightarrow> sector list \<times> real" where
  "sectorsLoop [] sectorStartTime sectors = (sectors, sectorStartTime)"
| "sectorsLoop (decelPeriod # rest) sectorStartTime sectors =
     (let sectorEndTime = startTime decelPeriod;
          sectorDuration = sectorEndTime - sectorStartTime
      in sectorsLoop rest (endTime decelPeriod)
           (if sectorDuration > 0
            then sectors @ [\<lparr> startTime = sectorStartTime, endTime = sectorEndTime,
                              duration = sectorDuration \<rparr>]
            else sectors))"

definition sectorsBetween :: "sample list \<Rightarrow> decelPeriod list \<Rightarrow> sector list" where
  "sectorsBetween lapData decelerationPeriods =
     (case sectorsLoop decelerationPeriods (time (hd lapData)) [] of
        (sectors, sectorStartTime) \<Rightarrow>
          let finalSectorEndTime = time (last lapData);
              finalSectorDuration = finalSectorEndTime - sectorStartTime
          in if finalSectorDuration > 0
             then sectors @ [\<lparr> startTime = sectorStartTime, endTime = finalSectorEndTime,
                               duration = finalSectorDuration \<rparr>]
             else sectors)"

text \<open>
  Step 3: sectors shorter than 5 s are merged. The first argument is the part of
  \<^verbatim>\<open>sectors\<close> from index \<open>i\<close> on; merging into the next sector updates that sector in
  place, merging the last sector updates the last element of \<^verbatim>\<open>mergedSectors\<close>.
\<close>

fun mergeLoop :: "sector list \<Rightarrow> sector list \<Rightarrow> sector list" where
  "mergeLoop [] mergedSectors = mergedSectors"
| "mergeLoop [sector] mergedSectors =
     (if duration sector < 5.0
      then (if mergedSectors \<noteq> []
            then butlast mergedSectors @
              [(last mergedSectors)\<lparr> endTime := endTime sector,
                 duration := endTime sector - startTime (last mergedSectors) \<rparr>]
            else mergedSectors @ [sector])
      else mergedSectors @ [sector])"
| "mergeLoop (sector # nextSector # rest) mergedSectors =
     (if duration sector < 5.0
      then mergeLoop
             (nextSector\<lparr> startTime := startTime sector,
                duration := endTime nextSector - startTime sector \<rparr> # rest)
             mergedSectors
      else mergeLoop (nextSector # rest) (mergedSectors @ [sector]))"

text \<open>Step 4 and the whole of \<^verbatim>\<open>findAccelerationPeriods\<close>.\<close>

definition findAccelerationPeriods :: "sample list \<Rightarrow> accelerationPeriod list" where
  "findAccelerationPeriods lapData =
     (if length lapData < 2 then []
      else map (\<lambda>sector. \<lparr> startTime = startTime sector, endTime = endTime sector,
                          duration = duration sector, maxSpeed = 0,
                          maxSpeedTime = endTime sector, speedIncrease = 0 \<rparr>)
             (mergeLoop (sectorsBetween lapData (decelerationPeriodsOf lapData)) []))"

text \<open>
  The nearest-sample search of \<^verbatim>\<open>createSectorBorders\<close> (the same loop is in
  \<^verbatim>\<open>updateTelemetryDisplay\<close>): it starts from index 0 and stops at the first index that
  is not strictly closer.
\<close>

function closestIndexLoop :: "sample list \<Rightarrow> real \<Rightarrow> nat \<Rightarrow> nat \<Rightarrow> real \<Rightarrow> nat" where
  "closestIndexLoop lapData target j closestIndex minDiff =
     (if j < length lapData
      then (let diff = \<bar>time (lapData ! j) - target\<bar>
            in if diff < minDiff
               then closestIndexLoop lapData target (j + 1) j diff
               else closestIndex)
      else closestIndex)"
  by pat_completeness auto
termination
  by (relation "measure (\<lambda>(lapData, target, j, c, m). length lapData - j)") auto

definition closestIndexTo :: "sample list \<Rightarrow> real \<Rightarrow> nat" where
  "closestIndexTo lapData target =
     closestIndexLoop lapData target 1 0 \<bar>time (lapData ! 0) - target\<bar>"

text \<open>
  \<^verbatim>\<open>createPerpendicularLine\<close>. The look-ahead and look-behind are at most 5 samples;
  the callers pass an index inside \<open>lapData\<close>. \<^verbatim>\<open>Math.cos\<close>, \<^verbatim>\<open>Math.sin\<close>, \<^verbatim>\<open>Math.sqrt\<close>
  and \<^verbatim>\<open>Math.PI\<close> are the real functions and the real number. A missing heading counts
  as 0. At a latitude of exactly 90 degrees the cosine is 0 and the division by it
  gives 0 here, where the source divides by a tiny number; no property below depends
  on the end points of such a border.
\<close>

definition createPerpendicularLine :: "sample \<Rightarrow> sample list \<Rightarrow> nat \<Rightarrow> border" where
  "createPerpendicularLine centerPoint lapData centerIndex =
     (let lookAhead = min 5 (length lapData - centerIndex - 1);
          lookBehind = min 5 centerIndex;
          trajectory =
            (if lookAhead > 0 \<and> lookBehind > 0
             then (let beforePoint = lapData ! (centerIndex - lookBehind);
                       afterPoint = lapData ! (centerIndex + lookAhead)
                   in (lat afterPoint - lat beforePoint, lon afterPoint - lon beforePoint))
             else if centerIndex > 0 \<and> centerIndex < length lapData - 1
             then (let beforePoint = lapData ! (centerIndex - 1);
                       afterPoint = lapData ! (centerIndex + 1)
                   in (lat afterPoint - lat beforePoint, lon afterPoint - lon beforePoint))
             else (let headingRad = heading centerPoint * pi / 180
                   in (cos headingRad, sin headingRad)));
          latRad = lat centerPoint * pi / 180;
          cosLat = cos latRad;
          correctedLat = fst trajectory;
          correctedLon = snd trajectory * cosLat;
          trajectoryLength = sqrt (correctedLat * correctedLat + correctedLon * correctedLon);
          normalized = (if trajectoryLength > 0
                        then (correctedLat / trajectoryLength, correctedLon / trajectoryLength)
                        else (correctedLat, correctedLon));
          perp = (- snd normalized, fst normalized);
          lineLength = 0.00004;
          perpLat = fst perp * lineLength;
          perpLon = snd perp * lineLength / cosLat
      in \<lparr> btime = time centerPoint,
           centerLat = lat centerPoint,
           centerLon = lon centerPoint,
           trajectoryVector = trajectory,
           perpVector = perp,
           startLat = lat centerPoint - perpLat,
           startLon = lon centerPoint - perpLon,
           endLat = lat centerPoint + perpLat,
           endLon = lon centerPoint + perpLon \<rparr>)"

text \<open>
  \<^verbatim>\<open>createSectorBorders\<close>: the loop over the periods, then the sort by time
  (\<^verbatim>\<open>Array.prototype.sort\<close> is stable). Reading \<^verbatim>\<open>lapData[lapData.length - 1].time\<close>
  throws on an empty array.
\<close>

fun bordersLoop :: "sample list \<Rightarrow> real \<Rightarrow> accelerationPeriod list \<Rightarrow> border list \<Rightarrow> border list" where
  "bordersLoop lapData lapEndTime [] borders = borders"
| "bordersLoop lapData lapEndTime (period # rest) borders =
     (let borderTime = endTime period - 0.2;
          timeToLapEnd = lapEndTime - borderTime
      in if timeToLapEnd < 2.0
         then bordersLoop lapData lapEndTime rest borders
         else
           let closestIndex = closestIndexTo lapData borderTime;
               borderPoint = lapData ! closestIndex;
               border = createPerpendicularLine borderPoint lapData closestIndex
           in bordersLoop lapData lapEndTime rest (borders @ [border]))"

definition createSectorBorders :: "sample list \<Rightarrow> accelerationPeriod list \<Rightarrow> error + border list" where
  "createSectorBorders lapData accelerationPeriods =
     (if lapData = [] then Inl TypeError
      else Inr (sort_key btime (bordersLoop lapData (time (last lapData)) accelerationPeriods [])))"

text \<open>
  The border that \<^verbatim>\<open>createSectorBorders\<close> builds for a border time: the perpendicular
  line at the sample found by the nearest-sample search.
\<close>

definition borderAt :: "sample list \<Rightarrow> real \<Rightarrow> border" where
  "borderAt lapData borderTime =
     createPerpendicularLine (lapData ! closestIndexTo lapData borderTime) lapData
       (closestIndexTo lapData borderTime)"

text \<open>
  The periods for which the loop of \<^verbatim>\<open>createSectorBorders\<close> does not take the
  \<^verbatim>\<open>continue\<close> branch: the border time is at least 2.0 s before the lap's last sample.
\<close>

definition keptPeriods :: "sample list \<Rightarrow> accelerationPeriod list \<Rightarrow> accelerationPeriod list" where
  "keptPeriods lapData accelerationPeriods =
     filter (\<lambda>period. \<not> time (last lapData) - (endTime period - 0.2) < 2.0) accelerationPeriods"

subsection \<open>The deceleration rule in the words of the specification\<close>

text \<open>
  Modelled from the spec, for comparison with \<open>decelerationPeriodsOf\<close>: the instantaneous
  acceleration of a pair of consecutive samples is the speed difference over the time
  difference; an episode opens at the first sample of a pair whose acceleration is
  below -0.5 and closes at the second sample of the next pair whose acceleration is at
  least -0.5; a closed episode is kept when it lasts at least 1.0 s, an episode still
  open at the last sample when it lasts at least 0.2 s. The first argument is the start
  time of the open episode, if any; the result lists (start, end) in order.
\<close>

definition accelerationOf :: "sample \<Rightarrow> sample \<Rightarrow> real" where
  "accelerationOf p q = (speed q - speed p) / (time q - time p)"

fun specEpisodes :: "real option \<Rightarrow> sample list \<Rightarrow> (real \<times> real) list" where
  "specEpisodes None (p # q # rest) =
     (if accelerationOf p q < - 0.5
      then specEpisodes (Some (time p)) (q # rest)
      else specEpisodes None (q # rest))"
| "specEpisodes (Some s) (p # q # rest) =
     (if accelerationOf p q \<ge> - 0.5
      then (if time q - s \<ge> 1.0 then [(s, time q)] else []) @ specEpisodes None (q # rest)
      else specEpisodes (Some s) (q # rest))"
| "specEpisodes (Some s) [p] = (if time p - s \<ge> 0.2 then [(s, time p)] else [])"
| "specEpisodes opened lapData = []"

section \<open>Per-lap sector timing\<close>

text \<open>
  The time range of a lap as computed in \<^verbatim>\<open>calculateLapSectorTimes\<close>,
  \<^verbatim>\<open>generateSectorSplits\<close> and \<^verbatim>\<open>calculateDiffToBestLap\<close>, and the samples in it (both
  ends inclusive). The callers pass a lap index below \<^verbatim>\<open>lapTimes.length\<close>.
\<close>

definition lapEndTimeOf :: "analyzer \<Rightarrow> nat \<Rightarrow> real" where
  "lapEndTimeOf a lapIndex =
     (if lapIndex < length (lapStartTimes a) - 1
      then lapStartTimes a ! (lapIndex + 1)
      else lapStartTimes a ! lapIndex + lapTimes a ! lapIndex)"

definition lapDataOf :: "analyzer \<Rightarrow> nat \<Rightarrow> sample list" where
  "lapDataOf a lapIndex =
     filter (\<lambda>point. time point \<ge> lapStartTimes a ! lapIndex \<and> time point \<le> lapEndTimeOf a lapIndex)
       (telemetryData a)"

text \<open>
  The loop over the borders in \<^verbatim>\<open>calculateLapSectorTimes\<close>: a sector is recorded only
  when the crossing lies strictly after the running sector start.
\<close>

fun sectorLoop :: "sample list \<Rightarrow> border list \<Rightarrow> real \<Rightarrow> real list \<Rightarrow> error + (real list \<times> real)" where
  "sectorLoop lapData [] sectorStartTime sectorTimes = Inr (sectorTimes, sectorStartTime)"
| "sectorLoop lapData (border # rest) sectorStartTime sectorTimes =
     (case findBorderCrossing lapData border of
        Inl e \<Rightarrow> Inl e
      | Inr crossingTime \<Rightarrow>
          if crossingTime > sectorStartTime
          then sectorLoop lapData rest crossingTime (sectorTimes @ [crossingTime - sectorStartTime])
          else sectorLoop lapData rest sectorStartTime sectorTimes)"

definition calculateLapSectorTimes :: "analyzer \<Rightarrow> nat \<Rightarrow> error + real list" where
  "calculateLapSectorTimes a lapIndex =
     (let lapStartTime = lapStartTimes a ! lapIndex;
          lapEndTime = lapEndTimeOf a lapIndex;
          lapData = lapDataOf a lapIndex
      in if lapData = [] \<or> sectorBorders a = [] then Inr [lapTimes a ! lapIndex]
         else
           (case sectorLoop lapData (sectorBorders a) lapStartTime [] of
              Inl e \<Rightarrow> Inl e
            | Inr (sectorTimes, sectorStartTime) \<Rightarrow>
                Inr (if sectorStartTime < lapEndTime
                     then sectorTimes @ [lapEndTime - sectorStartTime]
                     else sectorTimes)))"


text \<open>\<^verbatim>\<open>calculateAllLapSectorTimes\<close>: the sector times of every lap, in lap order.\<close>

fun allLapsLoop :: "analyzer \<Rightarrow> nat list \<Rightarrow> real list list \<Rightarrow> error + real list list" where
  "allLapsLoop a [] allTimes = Inr allTimes"
| "allLapsLoop a (lapIndex # rest) allTimes =
     (case calculateLapSectorTimes a lapIndex of
        Inl e \<Rightarrow> Inl e
      | Inr sectorTimes \<Rightarrow> allLapsLoop a rest (allTimes @ [sectorTimes]))"

definition calculateAllLapSectorTimes :: "analyzer \<Rightarrow> error + analyzer" where
  "calculateAllLapSectorTimes a =
     (case allLapsLoop a [0 ..< length (lapTimes a)] [] of
        Inl e \<Rightarrow> Inl e
      | Inr allTimes \<Rightarrow> Inr (a\<lparr> lapSectorTimes := allTimes \<rparr>))"

text \<open>
  \<^verbatim>\<open>generateSectorSplits\<close>: the borders are derived from the best lap and then every
  lap is timed against them. The early returns leave the state as it is. The calls
  that only log or update the page are left out.
\<close>

definition generateSectorSplits :: "analyzer \<Rightarrow> error + analyzer" where
  "generateSectorSplits a =
     (if lapTimes a = [] \<or> telemetryData a = [] then Inr a
      else if \<not> list_ex (\<lambda>point. lat point \<noteq> 0 \<and> lon point \<noteq> 0) (telemetryData a) then Inr a
      else
        let best = bestLapScan (lapTimes a);
            lapData = lapDataOf a best
        in if lapData = [] then Inr a
           else
             let accelerationPeriods = findAccelerationPeriods lapData
             in if accelerationPeriods = [] then Inr a
                else
                  (case createSectorBorders lapData accelerationPeriods of
                     Inl e \<Rightarrow> Inl e
                   | Inr borders \<Rightarrow> calculateAllLapSectorTimes (a\<lparr> sectorBorders := borders \<rparr>)))"

section \<open>Diff to the best lap\<close>

text \<open>\<^verbatim>\<open>Array.prototype.findIndex\<close>: the first index whose element satisfies the test;
  the result -1 is \<open>None\<close>.\<close>

fun findIndexFrom :: "('a \<Rightarrow> bool) \<Rightarrow> 'a list \<Rightarrow> nat \<Rightarrow> nat option" where
  "findIndexFrom test [] i = None"
| "findIndexFrom test (x # xs) i = (if test x then Some i else findIndexFrom test xs (i + 1))"

definition findIndex :: "('a \<Rightarrow> bool) \<Rightarrow> 'a list \<Rightarrow> nat option" where
  "findIndex test xs = findIndexFrom test xs 0"

text \<open>
  \<^verbatim>\<open>findCorrespondingTimeInBestLap\<close>: \<^verbatim>\<open>null\<close> (\<open>None\<close>) for a point without position, for
  an empty best lap, and when no sample of the best lap lies within 1 s of the same
  lap progress; otherwise the time at which the best lap crosses the perpendicular
  line through the current point.
\<close>

definition findCorrespondingTimeInBestLap :: "analyzer \<Rightarrow> sample \<Rightarrow> real \<Rightarrow> error + real option" where
  "findCorrespondingTimeInBestLap a currentPoint currentLapProgress =
     (if lat currentPoint = 0 \<or> lon currentPoint = 0 \<or> bestLapData a = [] then Inr None
      else
        (case findIndex
                (\<lambda>point. \<bar>time point - (lapStartTimes a ! nat (bestLapIndex a) + currentLapProgress)\<bar> < 1.0)
                (bestLapData a) of
           None \<Rightarrow> Inr None
         | Some currentPointIndex \<Rightarrow>
             let perpendicularLine =
                   createPerpendicularLine currentPoint (bestLapData a)
                     (min currentPointIndex (length (bestLapData a) - 1))
             in (case findBorderCrossing (bestLapData a) perpendicularLine of
                   Inl e \<Rightarrow> Inl e
                 | Inr crossingTime \<Rightarrow> Inr (Some crossingTime))))"

text \<open>
  The loop of \<^verbatim>\<open>calculateLapDiffToBest\<close> over the samples of the lap. The diff is stored
  at the index of the first telemetry sample within 1 ms of the current sample.
\<close>

fun lapDiffLoop :: "analyzer \<Rightarrow> real \<Rightarrow> sample list \<Rightarrow> error + analyzer" where
  "lapDiffLoop a lapStartTime [] = Inr a"
| "lapDiffLoop a lapStartTime (currentPoint # rest) =
     (let currentLapProgress = time currentPoint - lapStartTime
      in (case findCorrespondingTimeInBestLap a currentPoint currentLapProgress of
            Inl e \<Rightarrow> Inl e
          | Inr None \<Rightarrow> lapDiffLoop a lapStartTime rest
          | Inr (Some correspondingTime) \<Rightarrow>
              let bestLapStartTime = lapStartTimes a ! nat (bestLapIndex a);
                  bestLapProgress = correspondingTime - bestLapStartTime;
                  diff = currentLapProgress - bestLapProgress
              in (case findIndex (\<lambda>point. \<bar>time point - time currentPoint\<bar> < 0.001)
                         (telemetryData a) of
                    None \<Rightarrow> lapDiffLoop a lapStartTime rest
                  | Some telemetryIndex \<Rightarrow>
                      lapDiffLoop
                        (a\<lparr> diffToBestData := (diffToBestData a)[telemetryIndex := Some diff] \<rparr>)
                        lapStartTime rest)))"

definition calculateLapDiffToBest :: "analyzer \<Rightarrow> nat \<Rightarrow> error + analyzer" where
  "calculateLapDiffToBest a lapIndex =
     (let lapStartTime = lapStartTimes a ! lapIndex;
          currentLapData = lapDataOf a lapIndex
      in if currentLapData = [] \<or> bestLapData a = [] then Inr a
         else lapDiffLoop a lapStartTime currentLapData)"

text \<open>
  The branch of \<^verbatim>\<open>calculateDiffToBestLap\<close> for the best lap itself: every telemetry
  sample in the lap's time range gets the diff 0.
\<close>

definition zeroBestLap :: "analyzer \<Rightarrow> nat \<Rightarrow> analyzer" where
  "zeroBestLap a lapIndex =
     a\<lparr> diffToBestData :=
          fold (\<lambda>i diffs.
                  if time (telemetryData a ! i) \<ge> lapStartTimes a ! lapIndex
                     \<and> time (telemetryData a ! i) \<le> lapEndTimeOf a lapIndex
                  then diffs[i := Some 0] else diffs)
            [0 ..< length (telemetryData a)] (diffToBestData a) \<rparr>"

text \<open>The loop of \<^verbatim>\<open>calculateDiffToBestLap\<close> over the laps, in lap order.\<close>

fun diffLapsLoop :: "analyzer \<Rightarrow> nat list \<Rightarrow> error + analyzer" where
  "diffLapsLoop a [] = Inr a"
| "diffLapsLoop a (lapIndex # rest) =
     (if int lapIndex = bestLapIndex a
      then diffLapsLoop (zeroBestLap a lapIndex) rest
      else (case calculateLapDiffToBest a lapIndex of
              Inl e \<Rightarrow> Inl e
            | Inr a' \<Rightarrow> diffLapsLoop a' rest))"

definition calculateDiffToBestLap :: "analyzer \<Rightarrow> error + analyzer" where
  "calculateDiffToBestLap a =
     (if lapTimes a = [] \<or> telemetryData a = [] then Inr a
      else
        let a1 = a\<lparr> bestLapIndex := findBestLapIndex (lapTimes a) \<rparr>
        in if bestLapIndex a1 = - 1 then Inr a1
           else
             let a2 = a1\<lparr> bestLapData := lapDataOf a1 (nat (bestLapIndex a1)) \<rparr>;
                 a3 = a2\<lparr> diffToBestData := replicate (length (telemetryData a2)) None \<rparr>
             in diffLapsLoop a3 [0 ..< length (lapTimes a3)])"

section \<open>Telemetry parser\<close>

text \<open>
  Strings are lists of characters. \<^verbatim>\<open>String.prototype.trim\<close> removes white space at both
  ends: tab, line feed, vertical tab, form feed, carriage return, space and the
  no-break space (the white space below code point 256).
\<close>

definition isWhiteSpace :: "char \<Rightarrow> bool" where
  "isWhiteSpace c \<longleftrightarrow>
     c = CHR 0x09 \<or> c = CHR 0x0A \<or> c = CHR 0x0B \<or> c = CHR 0x0C \<or> c = CHR 0x0D
     \<or> c = CHR 0x20 \<or> c = CHR 0xA0"

definition trim :: "string \<Rightarrow> string" where
  "trim s = rev (dropWhile isWhiteSpace (rev (dropWhile isWhiteSpace s)))"

text \<open>\<^verbatim>\<open>csvText.split('\n')\<close>: the pieces between line feeds; an empty text has one
  empty piece.\<close>

fun splitLines :: "string \<Rightarrow> string list" where
  "splitLines [] = [ [] ]"
| "splitLines (c # cs) =
     (if c = CHR 0x0A then [] # splitLines cs
      else (case splitLines cs of
              [] \<Rightarrow> [ [c] ]
            | piece # pieces \<Rightarrow> (c # piece) # pieces))"

text \<open>\<^verbatim>\<open>startsWith\<close> and \<^verbatim>\<open>includes\<close> on strings; the latter is called \<open>includesStr\<close> here.\<close>

definition startsWith :: "string \<Rightarrow> string \<Rightarrow> bool" where
  "startsWith s p \<longleftrightarrow> take (length p) s = p"

fun includesStr :: "string \<Rightarrow> string \<Rightarrow> bool" where
  "includesStr [] p = (p = [])"
| "includesStr (c # cs) p = (startsWith (c # cs) p \<or> includesStr cs p)"

text \<open>The double quote character, and a text between double quotes.\<close>

definition dq :: char where
  "dq = CHR 0x22"

definition quoted :: "string \<Rightarrow> string" where
  "quoted s = dq # s @ [dq]"

text \<open>
  \<^verbatim>\<open>parseCsvLine\<close>: a double quote toggles \<^verbatim>\<open>inQuotes\<close> and is dropped, a comma outside
  quotes ends the field, every field is trimmed.
\<close>

fun csvLineLoop :: "string \<Rightarrow> string list \<Rightarrow> string \<Rightarrow> bool \<Rightarrow> string list" where
  "csvLineLoop [] result current inQuotes = result @ [trim current]"
| "csvLineLoop (c # rest) result current inQuotes =
     (if c = dq then csvLineLoop rest result current (\<not> inQuotes)
      else if c = CHR '','' \<and> \<not> inQuotes then csvLineLoop rest (result @ [trim current]) [] inQuotes
      else csvLineLoop rest result (current @ [c]) inQuotes)"

definition parseCsvLine :: "string \<Rightarrow> string list" where
  "parseCsvLine line = csvLineLoop line [] [] False"

text \<open>\<^verbatim>\<open>Array.prototype.indexOf\<close>: the first index of the element, or -1.\<close>

fun indexOfFrom :: "'a list \<Rightarrow> 'a \<Rightarrow> int \<Rightarrow> int" where
  "indexOfFrom [] x i = - 1"
| "indexOfFrom (y # ys) x i = (if y = x then i else indexOfFrom ys x (i + 1))"

definition indexOf :: "'a list \<Rightarrow> 'a \<Rightarrow> int" where
  "indexOf xs x = indexOfFrom xs x 0"

text \<open>
  The first loop of \<^verbatim>\<open>parseCsvData\<close>: a line that starts with the quoted words Segment
  Times only sets the lap times (not modelled) and is passed over; the first other line
  that includes the quoted words Time and GPS Speed is the header. The result is
  \<^verbatim>\<open>headerIndex\<close>, or \<open>None\<close> when it stays -1.
\<close>

fun findHeaderFrom :: "string list \<Rightarrow> nat \<Rightarrow> nat option" where
  "findHeaderFrom [] i = None"
| "findHeaderFrom (l # ls) i =
     (let line = trim l
      in if startsWith line (quoted ''Segment Times'') then findHeaderFrom ls (i + 1)
         else if includesStr line (quoted ''Time'') \<and> includesStr line (quoted ''GPS Speed'') then Some i
         else findHeaderFrom ls (i + 1))"

text \<open>The column indices resolved from the header, in the order of the source.\<close>

record columns =
  timeIndex :: int
  speedIndex :: int
  latAccIndex :: int
  lonAccIndex :: int
  altitudeIndex :: int
  latIndex :: int
  lonIndex :: int
  headingIndex :: int

definition resolveColumns :: "string list \<Rightarrow> columns" where
  "resolveColumns headers =
     \<lparr> timeIndex = indexOf headers ''Time'',
       speedIndex = indexOf headers ''GPS Speed'',
       latAccIndex = indexOf headers ''GPS LatAcc'',
       lonAccIndex = indexOf headers ''GPS LonAcc'',
       altitudeIndex = indexOf headers ''Altitude'',
       latIndex = indexOf headers ''GPS Latitude'',
       lonIndex = indexOf headers ''GPS Longitude'',
       headingIndex = indexOf headers ''GPS Heading'' \<rparr>"

definition maxIndexOf :: "columns \<Rightarrow> int" where
  "maxIndexOf cols =
     max (timeIndex cols) (max (speedIndex cols) (max (latAccIndex cols) (max (lonAccIndex cols)
       (max (altitudeIndex cols) (max (latIndex cols) (max (lonIndex cols) (headingIndex cols)))))))"

text \<open>
  The body of the second loop of \<^verbatim>\<open>parseCsvData\<close> for one line: the sample pushed for
  the line, if any. \<^verbatim>\<open>parseFloat\<close> is a parameter; its result \<^verbatim>\<open>NaN\<close> is \<open>None\<close>. An
  optional column that is absent, or whose field is not a number, gives 0.
\<close>

definition optionalField :: "(string \<Rightarrow> real option) \<Rightarrow> string list \<Rightarrow> int \<Rightarrow> real" where
  "optionalField parseFloat values idx =
     (if idx \<noteq> - 1
      then (case parseFloat (values ! nat idx) of None \<Rightarrow> 0 | Some v \<Rightarrow> v)
      else 0)"

definition rowSample :: "(string \<Rightarrow> real option) \<Rightarrow> columns \<Rightarrow> string \<Rightarrow> sample option" where
  "rowSample parseFloat cols l =
     (let line = trim l
      in if line = [] then None
         else
           let values = parseCsvLine line
           in if int (length values) > maxIndexOf cols
              then (case (parseFloat (values ! nat (timeIndex cols)),
                          parseFloat (values ! nat (speedIndex cols))) of
                      (Some t, Some v) \<Rightarrow>
                        Some \<lparr> time = t, speed = v,
                               latAcc = optionalField parseFloat values (latAccIndex cols),
                               lonAcc = optionalField parseFloat values (lonAccIndex cols),
                               altitude = optionalField parseFloat values (altitudeIndex cols),
                               lat = optionalField parseFloat values (latIndex cols),
                               lon = optionalField parseFloat values (lonIndex cols),
                               heading = optionalField parseFloat values (headingIndex cols) \<rparr>
                    | _ \<Rightarrow> None)
              else None)"

fun rowsLoop :: "(string \<Rightarrow> real option) \<Rightarrow> columns \<Rightarrow> string list \<Rightarrow> sample list \<Rightarrow> sample list" where
  "rowsLoop parseFloat cols [] telemetry = telemetry"
| "rowsLoop parseFloat cols (l # ls) telemetry =
     (case rowSample parseFloat cols l of
        None \<Rightarrow> rowsLoop parseFloat cols ls telemetry
      | Some point \<Rightarrow> rowsLoop parseFloat cols ls (telemetry @ [point]))"

text \<open>
  \<^verbatim>\<open>parseCsvData\<close>, up to the assignment of \<^verbatim>\<open>telemetryData\<close>: the two \<^verbatim>\<open>throw\<close>
  statements and the samples. The data rows start two lines after the header.
\<close>

definition parseCsvData :: "(string \<Rightarrow> real option) \<Rightarrow> string \<Rightarrow> error + sample list" where
  "parseCsvData parseFloat csvText =
     (let lines = splitLines csvText
      in (case findHeaderFrom lines 0 of
            None \<Rightarrow> Inl (Error ''Could not find data header in CSV file'')
          | Some headerIndex \<Rightarrow>
              let dataStartIndex = headerIndex + 2;
                  headers = parseCsvLine (lines ! headerIndex);
                  cols = resolveColumns headers
              in if timeIndex cols = - 1 \<or> speedIndex cols = - 1
                 then Inl (Error ''Could not find Time or GPS Speed columns'')
                 else Inr (rowsLoop parseFloat cols (drop dataStartIndex lines) [])))"

text \<open>The test that the first loop applies to a line to accept it as the header.\<close>

definition headerRow :: "string \<Rightarrow> bool" where
  "headerRow l \<longleftrightarrow>
     \<not> startsWith (trim l) (quoted ''Segment Times'')
     \<and> includesStr (trim l) (quoted ''Time'') \<and> includesStr (trim l) (quoted ''GPS Speed'')"

text \<open>The column indices that are present (not -1), in the order of the source.\<close>

definition presentIndices :: "columns \<Rightarrow> int list" where
  "presentIndices cols =
     filter (\<lambda>i. i \<noteq> - 1)
       [timeIndex cols, speedIndex cols, latAccIndex cols, lonAccIndex cols,
        altitudeIndex cols, latIndex cols, lonIndex cols, headingIndex cols]"

section \<open>Video and telemetry synchronisation\<close>



section \<open>Concrete scenarios\<close>

text \<open>A sample with the given time, speed, latitude and longitude, and a border with the
  given end points (start latitude, start longitude, end latitude, end longitude).\<close>

definition samplePoint :: "real \<Rightarrow> real \<Rightarrow> real \<Rightarrow> real \<Rightarrow> sample" where
  "samplePoint t v la lo =
     \<lparr> time = t, speed = v, latAcc = 0, lonAcc = 0, altitude = 0, lat = la, lon = lo, heading = 0 \<rparr>"

definition segmentBorder :: "real \<Rightarrow> real \<Rightarrow> real \<Rightarrow> real \<Rightarrow> border" where
  "segmentBorder la1 lo1 la2 lo2 =
     \<lparr> btime = 0, centerLat = (la1 + la2) / 2, centerLon = (lo1 + lo2) / 2,
       trajectoryVector = (0, 1), perpVector = (1, 0),
       startLat = la1, startLon = lo1, endLat = la2, endLon = lo2 \<rparr>"


text \<open>An out lap of 10 s and one timed lap of 20 s with three samples on a straight line
  and one border across it.\<close>

definition timingScenario :: analyzer where
  "timingScenario =
     \<lparr> telemetryData = [samplePoint 10 50 0 0, samplePoint 12 50 0 2, samplePoint 14 50 0 4],
       lapTimes = [10, 20],
       lapStartTimes = calculateLapStartTimes [10, 20],
       sectorBorders = [segmentBorder (-1) 3 1 3],
       lapSectorTimes = [],
       bestLapData = [],
       bestLapIndex = 1,
       diffToBestData = [] \<rparr>"

text \<open>
  A session of an out lap (10 s) and two timed laps (20 s and 25 s) driven along the
  parallel of latitude 60. The second lap, the faster timed lap, brakes twice; the
  samples of the other two laps lie before and behind the stretch covered by the
  second lap. No border has been computed yet.
\<close>

definition raceScenario :: analyzer where
  "raceScenario =
     \<lparr> telemetryData =
         [samplePoint 5 30 60 0.5,
          samplePoint 10 100 60 1, samplePoint 15 100 60 1.5, samplePoint 16 50 60 1.6,
          samplePoint 17 50 60 1.7, samplePoint 22 100 60 2.5, samplePoint 23 50 60 2.6,
          samplePoint 24 50 60 3, samplePoint 30 100 60 5,
          samplePoint 40 80 60 6, samplePoint 50 80 60 7],
       lapTimes = [10, 20, 25],
       lapStartTimes = calculateLapStartTimes [10, 20, 25],
       sectorBorders = [],
       lapSectorTimes = [],
       bestLapData = [],
       bestLapIndex = - 1,
       diffToBestData = [] \<rparr>"

text \<open>The samples of the second lap of that session (times 10 to 30).\<close>

definition raceBestLap :: "sample list" where
  "raceBestLap =
     [samplePoint 10 100 60 1, samplePoint 15 100 60 1.5, samplePoint 16 50 60 1.6,
      samplePoint 17 50 60 1.7, samplePoint 22 100 60 2.5, samplePoint 23 50 60 2.6,
      samplePoint 24 50 60 3, samplePoint 30 100 60 5]"

text \<open>The two borders that the segmentation derives from the second lap, and the session
  after \<^verbatim>\<open>generateSectorSplits\<close>.\<close>

definition raceGate1 :: border where
  "raceGate1 =
     \<lparr> btime = 15, centerLat = 60, centerLon = 1.5, trajectoryVector = (0, 2),
       perpVector = (- 1, 0), startLat = 60.00004, startLon = 1.5,
       endLat = 59.99996, endLon = 1.5 \<rparr>"

definition raceGate2 :: border where
  "raceGate2 =
     \<lparr> btime = 22, centerLat = 60, centerLon = 2.5, trajectoryVector = (0, 4),
       perpVector = (- 1, 0), startLat = 60.00004, startLon = 2.5,
       endLat = 59.99996, endLon = 2.5 \<rparr>"

definition raceSplit :: analyzer where
  "raceSplit = raceScenario\<lparr> sectorBorders := [raceGate1, raceGate2],
                              lapSectorTimes := [ [10], [5, 7, 8], [25] ] \<rparr>"

text \<open>Two short laps: a deceleration of 0.5 s that ends before the last sample, and a
  deceleration of 0.5 s that is still going on at the last sample.\<close>

definition closedShort :: "sample list" where
  "closedShort = [samplePoint 0 100 60 1, samplePoint 0.25 90 60 1.1, samplePoint 0.5 90 60 1.2]"

definition danglingShort :: "sample list" where
  "danglingShort = [samplePoint 0 100 60 1, samplePoint 0.5 90 60 1.2]"

text \<open>The session at the start of the loop over the laps in \<^verbatim>\<open>calculateDiffToBestLap\<close>,
  and at its end.\<close>

definition raceDiffStart :: analyzer where
  "raceDiffStart =
     raceScenario\<lparr> bestLapIndex := 1, bestLapData := raceBestLap,
       diffToBestData := [None, None, None, None, None, None, None, None, None, None, None] \<rparr>"

definition raceDiffResult :: analyzer where
  "raceDiffResult =
     raceDiffStart\<lparr> diffToBestData :=
       [Some 5, Some 0, Some 0, Some 0, Some 0, Some 0, Some 0, Some 0, Some (- 20), None, Some 0] \<rparr>"

text \<open>
  The values of \<^verbatim>\<open>parseFloat\<close> on the fields of the example files; it is \<^verbatim>\<open>NaN\<close> on the
  other fields that occur in them.
\<close>

definition exampleParseFloat :: "string \<Rightarrow> real option" where
  "exampleParseFloat s =
     (if s = ''0.5'' then Some 0.5
      else if s = ''1.0'' then Some 1
      else if s = ''60'' then Some 60
      else if s = ''80'' then Some 80
      else if s = ''82'' then Some 82
      else None)"

text \<open>
  A file with a header of three columns, the units row, a complete data row and a data
  row that lacks the latitude field; and a file whose first line includes both quoted
  words, but not Time as a field of its own.
\<close>

definition exampleCsv :: string where
  "exampleCsv =
     quoted ''Time'' @ '','' @ quoted ''GPS Speed'' @ '','' @ quoted ''GPS Latitude'' @ [CHR 0x0A]
     @ quoted ''s'' @ '','' @ quoted ''km/h'' @ '','' @ quoted ''deg'' @ [CHR 0x0A]
     @ quoted ''0.5'' @ '','' @ quoted ''80'' @ '','' @ quoted ''60'' @ [CHR 0x0A]
     @ quoted ''1.0'' @ '','' @ quoted ''82'' @ [CHR 0x0A]"

definition noTimeColumnCsv :: string where
  "noTimeColumnCsv =
     ''Lap '' @ quoted ''Time'' @ '','' @ quoted ''GPS Speed'' @ [CHR 0x0A]
     @ quoted ''s'' @ '','' @ quoted ''km/h'' @ [CHR 0x0A]
     @ quoted ''0.5'' @ '','' @ quoted ''80'' @ [CHR 0x0A]"

section \<open>Properties of the lap indexer\<close>

lemma bestLapLoop_spec:
  assumes "b < i" "i \<le> length laps" "t = laps ! b"
    and "\<forall>j. s \<le> j \<and> j < i \<longrightarrow> laps ! b \<le> laps ! j"
    and "\<forall>j. s \<le> j \<and> j < b \<longrightarrow> laps ! b < laps ! j"
    and "s \<le> b"
  shows "s \<le> bestLapLoop laps i b t \<and> bestLapLoop laps i b t < length laps
    \<and> (\<forall>j. s \<le> j \<and> j < length laps \<longrightarrow>
          laps ! (bestLapLoop laps i b t) \<le> laps ! j)
    \<and> (\<forall>j. s \<le> j \<and> j < bestLapLoop laps i b t \<longrightarrow>
          laps ! (bestLapLoop laps i b t) < laps ! j)"
  using assms
proof (induction laps i b t rule: bestLapLoop.induct)
  case (1 laps i b t)
  show ?case
  proof (cases "i < length laps")
    case False
    with "1.prems" have "i = length laps" by simp
    with "1.prems" False show ?thesis by simp
  next
    case inr: True
    show ?thesis
    proof (cases "laps ! i < t")
      case True
      have a: "\<forall>j. s \<le> j \<and> j < Suc i \<longrightarrow> laps ! i \<le> laps ! j"
      proof (intro allI impI)
        fix j assume "s \<le> j \<and> j < Suc i"
        then have "j = i \<or> (s \<le> j \<and> j < i)" by auto
        then show "laps ! i \<le> laps ! j"
          using "1.prems"(3,4) True by auto
      qed
      have b: "\<forall>j. s \<le> j \<and> j < i \<longrightarrow> laps ! i < laps ! j"
        using "1.prems"(3,4) True by force
      have "s \<le> i" using "1.prems" by simp
      from "1.IH"(1)[OF inr True _ _ _ a b this] inr True
      show ?thesis by simp
    next
      case False
      have a: "\<forall>j. s \<le> j \<and> j < Suc i \<longrightarrow> laps ! b \<le> laps ! j"
      proof (intro allI impI)
        fix j assume "s \<le> j \<and> j < Suc i"
        then have "j = i \<or> (s \<le> j \<and> j < i)" by auto
        then show "laps ! b \<le> laps ! j"
          using "1.prems"(3,4) False by auto
      qed
      from "1.IH"(2)[OF inr False _ _ "1.prems"(3) a "1.prems"(5,6)] "1.prems"(1) inr False
      show ?thesis by simp
    qed
  qed
qed

text \<open>
  Claim C5. With more than one lap the reference lap has an index of at least 1 and the
  least lap time among the indices from 1 on, and every earlier lap from index 1 on is
  strictly slower (the lowest index wins a tie). A single lap is its own reference.
  For the lap times 10.0, 62.345, 61.998, 63.102 the reference index is 2.
\<close>

theorem findBestLapIndex_selects_minimum:
  "(length laps > 1 \<longrightarrow>
      (\<exists>k. findBestLapIndex laps = int k \<and> 1 \<le> k \<and> k < length laps
        \<and> (\<forall>j. 1 \<le> j \<and> j < length laps \<longrightarrow> laps ! k \<le> laps ! j)
        \<and> (\<forall>j. 1 \<le> j \<and> j < k \<longrightarrow> laps ! k < laps ! j)))
   \<and> (length laps = 1 \<longrightarrow> findBestLapIndex laps = 0)
   \<and> findBestLapIndex [10.0, 62.345, 61.998, 63.102] = 2"
proof (intro conjI impI)
  assume len: "length laps > 1"
  have "1 \<le> bestLapLoop laps 2 1 (laps ! 1) \<and>
        bestLapLoop laps 2 1 (laps ! 1) < length laps
    \<and> (\<forall>j. 1 \<le> j \<and> j < length laps \<longrightarrow>
          laps ! (bestLapLoop laps 2 1 (laps ! 1)) \<le> laps ! j)
    \<and> (\<forall>j. 1 \<le> j \<and> j < bestLapLoop laps 2 1 (laps ! 1) \<longrightarrow>
          laps ! (bestLapLoop laps 2 1 (laps ! 1)) < laps ! j)"
  proof (rule bestLapLoop_spec)
    show "\<forall>j. 1 \<le> j \<and> j < 2 \<longrightarrow> laps ! 1 \<le> laps ! j"
    proof (intro allI impI)
      fix j :: nat assume "1 \<le> j \<and> j < 2"
      then have "j = 1" by simp
      then show "laps ! 1 \<le> laps ! j" by simp
    qed
  qed (use len in auto)
  moreover have "findBestLapIndex laps = int (bestLapLoop laps 2 1 (laps ! 1))"
    using len by (auto simp: findBestLapIndex_def bestLapScan_def numeral_2_eq_2)
  ultimately show "\<exists>k. findBestLapIndex laps = int k \<and> 1 \<le> k \<and> k < length laps
        \<and> (\<forall>j. 1 \<le> j \<and> j < length laps \<longrightarrow> laps ! k \<le> laps ! j)
        \<and> (\<forall>j. 1 \<le> j \<and> j < k \<longrightarrow> laps ! k < laps ! j)"
    by blast
next
  assume "length laps = 1"
  then obtain x where "laps = [x]" by (cases laps) auto
  then show "findBestLapIndex laps = 0"
    by (simp add: findBestLapIndex_def bestLapScan_def)
next
  show "findBestLapIndex [10.0, 62.345, 61.998, 63.102] = 2"
    by (simp add: findBestLapIndex_def bestLapScan_def numeral_2_eq_2 numeral_3_eq_3)
qed

theorem findBestLapIndex_selects_minimum_witness:
  "length [10.0, 61.998, 63.102, 61.998 :: real] > 1
   \<and> (\<exists>k. findBestLapIndex [10.0, 61.998, 63.102, 61.998] = int k \<and> 1 \<le> k \<and> k < 4)
   \<and> length [42.5 :: real] = 1 \<and> findBestLapIndex [42.5] = 0"
  using findBestLapIndex_selects_minimum [of "[10.0, 61.998, 63.102, 61.998]"]
    findBestLapIndex_selects_minimum [of "[42.5]"]
  by auto

section \<open>Properties of the gate-crossing search\<close>

lemma lineSegmentIntersection_Some:
  assumes "lineSegmentIntersection x1 y1 x2 y2 x3 y3 x4 y4 = Some r"
  shows "0 \<le> i_t r \<and> i_t r \<le> 1
    \<and> \<bar>(x1 - x2) * (y3 - y4) - (y1 - y2) * (x3 - x4)\<bar> \<ge> 1 / 10 ^ 10
    \<and> i_t r = ((x1 - x3) * (y3 - y4) - (y1 - y3) * (x3 - x4)) / ((x1 - x2) * (y3 - y4) - (y1 - y2) * (x3 - x4))
    \<and> i_lon r = x1 + i_t r * (x2 - x1) \<and> i_lat r = y1 + i_t r * (y2 - y1)"
  using assms unfolding lineSegmentIntersection_def Let_def
  by (auto split: if_splits)

lemma lineSegmentIntersection_on_gate:
  assumes "lineSegmentIntersection x1 y1 x2 y2 x3 y3 x4 y4 = Some r"
  shows "\<exists>u. 0 \<le> u \<and> u \<le> 1 \<and> i_lon r = x3 + u * (x4 - x3) \<and> i_lat r = y3 + u * (y4 - y3)"
proof -
  define denom where "denom = (x1 - x2) * (y3 - y4) - (y1 - y2) * (x3 - x4)"
  define t where "t = ((x1 - x3) * (y3 - y4) - (y1 - y3) * (x3 - x4)) / denom"
  define u where "u = - ((x1 - x2) * (y1 - y3) - (y1 - y2) * (x1 - x3)) / denom"
  from assms have nz: "denom \<noteq> 0" and u: "0 \<le> u" "u \<le> 1"
    and r: "i_lon r = x1 + t * (x2 - x1)" "i_lat r = y1 + t * (y2 - y1)"
    unfolding lineSegmentIntersection_def Let_def denom_def t_def u_def
    by (auto split: if_splits)
  have td: "t * denom = (x1 - x3) * (y3 - y4) - (y1 - y3) * (x3 - x4)"
    and ud: "u * denom = - ((x1 - x2) * (y1 - y3) - (y1 - y2) * (x1 - x3))"
    using nz unfolding t_def u_def by simp_all
  have "(x1 + t * (x2 - x1)) * denom = x1 * denom + (t * denom) * (x2 - x1)"
    by (simp add: algebra_simps)
  also have "\<dots> = x1 * denom + ((x1 - x3) * (y3 - y4) - (y1 - y3) * (x3 - x4)) * (x2 - x1)"
    by (simp only: td)
  also have "\<dots> = x3 * denom + (- ((x1 - x2) * (y1 - y3) - (y1 - y2) * (x1 - x3))) * (x4 - x3)"
    by (simp add: denom_def algebra_simps)
  also have "\<dots> = x3 * denom + (u * denom) * (x4 - x3)"
    by (simp only: ud)
  also have "\<dots> = (x3 + u * (x4 - x3)) * denom"
    by (simp add: algebra_simps)
  finally have 1: "x1 + t * (x2 - x1) = x3 + u * (x4 - x3)" using nz by simp
  have "(y1 + t * (y2 - y1)) * denom = y1 * denom + (t * denom) * (y2 - y1)"
    by (simp add: algebra_simps)
  also have "\<dots> = y1 * denom + ((x1 - x3) * (y3 - y4) - (y1 - y3) * (x3 - x4)) * (y2 - y1)"
    by (simp only: td)
  also have "\<dots> = y3 * denom + (- ((x1 - x2) * (y1 - y3) - (y1 - y2) * (x1 - x3))) * (y4 - y3)"
    by (simp add: denom_def algebra_simps)
  also have "\<dots> = y3 * denom + (u * denom) * (y4 - y3)"
    by (simp only: ud)
  also have "\<dots> = (y3 + u * (y4 - y3)) * denom"
    by (simp add: algebra_simps)
  finally have 2: "y1 + t * (y2 - y1) = y3 + u * (y4 - y3)" using nz by simp
  show ?thesis using u r 1 2 by auto
qed

lemma crossingScan_first:
  assumes "Suc k < length xs"
    and "\<forall>i<k. pairIntersection (xs ! i) (xs ! Suc i) b = None"
    and "pairIntersection (xs ! k) (xs ! Suc k) b = Some r"
    and "time (xs ! k) \<le> time (xs ! Suc k)"
  shows "crossingScan xs b = Some (time (xs ! k) + i_t r * (time (xs ! Suc k) - time (xs ! k)))"
  using assms
proof (induction xs b arbitrary: k rule: crossingScan.induct)
  case (1 point1 point2 rest border)
  show ?case
  proof (cases k)
    case 0
    with "1.prems" have hit: "pairIntersection point1 point2 border = Some r"
      and le: "time point1 \<le> time point2" by simp_all
    from hit have t: "0 \<le> i_t r" "i_t r \<le> 1"
      unfolding pairIntersection_def using lineSegmentIntersection_Some by blast+
    have a: "time point1 \<le> time point1 + i_t r * (time point2 - time point1)"
      using t le by simp
    have "i_t r * (time point2 - time point1) \<le> 1 * (time point2 - time point1)"
      using t le by (intro mult_right_mono) auto
    then have b: "time point1 + i_t r * (time point2 - time point1) \<le> time point2" by simp
    show ?thesis using 0 hit t a b by (simp add: Let_def)
  next
    case (Suc k')
    with "1.prems" have none: "pairIntersection point1 point2 border = None" by auto
    have "crossingScan (point2 # rest) border =
      Some (time ((point2 # rest) ! k') + i_t r * (time ((point2 # rest) ! Suc k') - time ((point2 # rest) ! k')))"
    proof (rule "1.IH"(1)[OF none])
      show "Suc k' < length (point2 # rest)" using "1.prems"(1) Suc by simp
      show "\<forall>i<k'. pairIntersection ((point2 # rest) ! i) ((point2 # rest) ! Suc i) border = None"
        using "1.prems"(2) Suc by auto
      show "pairIntersection ((point2 # rest) ! k') ((point2 # rest) ! Suc k') border = Some r"
        using "1.prems"(3) Suc by simp
      show "time ((point2 # rest) ! k') \<le> time ((point2 # rest) ! Suc k')"
        using "1.prems"(4) Suc by simp
    qed
    then show ?thesis using none Suc by simp
  qed
qed simp_all

lemma crossingScan_none:
  assumes "\<forall>i. Suc i < length xs \<longrightarrow> pairIntersection (xs ! i) (xs ! Suc i) b = None"
  shows "crossingScan xs b = None"
  using assms
proof (induction xs b rule: crossingScan.induct)
  case (1 point1 point2 rest border)
  from "1.prems" have none: "pairIntersection point1 point2 border = None" by force
  have "\<forall>i. Suc i < length (point2 # rest) \<longrightarrow>
      pairIntersection ((point2 # rest) ! i) ((point2 # rest) ! Suc i) border = None"
    using "1.prems" by force
  from "1.IH"(1)[OF none this] none show ?case by simp
qed simp_all

lemma crossingScan_range:
  assumes "crossingScan xs b = Some c" and "\<forall>p \<in> set xs. lo \<le> time p \<and> time p \<le> hi"
  shows "lo \<le> c \<and> c \<le> hi"
  using assms
proof (induction xs b rule: crossingScan.induct)
  case (1 point1 point2 rest border)
  then show ?case
    by (auto simp: Let_def split: option.splits if_splits)
qed simp_all

lemma closestScan_min:
  assumes "distanceToLineSegment p0 b = d0" "time p0 = t0"
  shows "\<exists>p \<in> insert p0 (set xs). closestScan xs b d0 t0 = time p
     \<and> (\<forall>q \<in> insert p0 (set xs). distanceToLineSegment p b \<le> distanceToLineSegment q b)"
  using assms
proof (induction xs arbitrary: p0 d0 t0)
  case Nil
  then show ?case by auto
next
  case (Cons x xs)
  show ?case
  proof (cases "distanceToLineSegment x b < d0")
    case True
    from Cons.IH[of x "distanceToLineSegment x b" "time x"]
    obtain p where p: "p \<in> insert x (set xs)"
      "closestScan xs b (distanceToLineSegment x b) (time x) = time p"
      "\<forall>q \<in> insert x (set xs). distanceToLineSegment p b \<le> distanceToLineSegment q b"
      by auto
    then have "distanceToLineSegment p b \<le> distanceToLineSegment p0 b"
      using True Cons.prems by force
    with p True show ?thesis by (auto simp: Let_def)
  next
    case False
    from Cons.IH[OF Cons.prems]
    obtain p where p: "p \<in> insert p0 (set xs)"
      "closestScan xs b d0 t0 = time p"
      "\<forall>q \<in> insert p0 (set xs). distanceToLineSegment p b \<le> distanceToLineSegment q b"
      by auto
    then have "distanceToLineSegment p b \<le> distanceToLineSegment x b"
      using False Cons.prems by force
    with p False show ?thesis by (auto simp: Let_def)
  qed
qed

lemma findBorderCrossing_range:
  assumes "findBorderCrossing xs b = Inr c" and "\<forall>p \<in> set xs. lo \<le> time p \<and> time p \<le> hi"
  shows "lo \<le> c \<and> c \<le> hi"
proof (cases xs)
  case Nil
  with assms show ?thesis by (simp add: findBorderCrossing_def)
next
  case (Cons p0 rest)
  show ?thesis
  proof (cases "crossingScan xs b")
    case None
    from closestScan_min[of p0 b _ _ xs, OF refl refl]
    obtain p where "p \<in> insert p0 (set xs)"
      "closestScan xs b (distanceToLineSegment p0 b) (time p0) = time p" by blast
    with assms None Cons show ?thesis by (auto simp: findBorderCrossing_def)
  next
    case (Some c')
    with assms Cons have "c' = c" by (simp add: findBorderCrossing_def)
    with Some crossingScan_range assms(2) show ?thesis by blast
  qed
qed

lemma findBorderCrossing_total:
  "xs \<noteq> [] \<Longrightarrow> \<exists>c. findBorderCrossing xs b = Inr c"
  by (cases xs) (auto simp: findBorderCrossing_def split: option.splits)

text \<open>The clamped projection of \<open>distanceToLineSegment\<close> is the nearest point of the
  border segment.\<close>

lemma quad_min_clamped:
  fixes L W s t :: real
  assumes L: "0 < L" and s: "0 \<le> s" "s \<le> 1" and t: "t = max 0 (min 1 (W / L))"
  shows "0 \<le> (s - t) * ((s + t) * L - 2 * W)"
proof -
  consider "W / L \<le> 0" | "0 < W / L" "W / L < 1" | "1 \<le> W / L" by linarith
  then show ?thesis
  proof cases
    case 1
    then have t0: "t = 0" using t by simp
    from 1 L have "W \<le> 0" by (simp add: divide_le_0_iff)
    moreover have "0 \<le> s * L" using s L by simp
    ultimately have "0 \<le> s * L - 2 * W" by linarith
    then have "0 \<le> s * (s * L - 2 * W)" using s by (intro mult_nonneg_nonneg) auto
    then show ?thesis using t0 by simp
  next
    case 2
    then have tw: "t = W / L" using t by simp
    then have "W = t * L" using L by simp
    then have "(s - t) * ((s + t) * L - 2 * W) = (s - t)\<^sup>2 * L"
      by (simp add: power2_eq_square algebra_simps)
    then show ?thesis using L by simp
  next
    case 3
    then have t1: "t = 1" using t by simp
    from 3 L have "L \<le> W" by (simp add: le_divide_eq)
    then have "(s + 1) * L - 2 * W \<le> (s - 1) * L" by (simp add: algebra_simps)
    moreover have "(s - 1) * L \<le> 0" using s L by (simp add: mult_le_0_iff)
    ultimately have a: "(s + 1) * L - 2 * W \<le> 0" by linarith
    have b: "s - 1 \<le> 0" using s by simp
    have "0 \<le> (s - 1) * ((s + 1) * L - 2 * W)" by (rule mult_nonpos_nonpos[OF b a])
    then show ?thesis using t1 by simp
  qed
qed

lemma sum_squares_zero: "(a::real) * a + b * b = 0 \<Longrightarrow> a = 0 \<and> b = 0"
  by (simp add: sum_squares_eq_zero_iff)

lemma distanceToLineSegment_le:
  assumes s: "0 \<le> s" "s \<le> 1"
  shows "distanceToLineSegment p b \<le> distanceToBorderPoint p b s"
proof -
  define x y x1 y1 x2 y2 where d: "x = lon p" "y = lat p" "x1 = startLon b" "y1 = startLat b"
    "x2 = endLon b" "y2 = endLat b"
  define L where "L = (x2 - x1) * (x2 - x1) + (y2 - y1) * (y2 - y1)"
  define W where "W = (x - x1) * (x2 - x1) + (y - y1) * (y2 - y1)"
  show ?thesis
  proof (cases "L = 0")
    case True
    then have "x2 - x1 = 0 \<and> y2 - y1 = 0" unfolding L_def by (rule sum_squares_zero)
    then show ?thesis
      using True unfolding distanceToLineSegment_def distanceToBorderPoint_def Let_def
        d[symmetric] L_def[symmetric]
      by (simp add: power2_eq_square)
  next
    case False
    have "0 \<le> L" unfolding L_def by simp
    with False have L: "0 < L" by simp
    define t where "t = max 0 (min 1 (W / L))"
    have q: "0 \<le> (s - t) * ((s + t) * L - 2 * W)"
      by (rule quad_min_clamped[OF L s t_def])
    have id: "((x - (x1 + s * (x2 - x1)))\<^sup>2 + (y - (y1 + s * (y2 - y1)))\<^sup>2)
        - ((x - (x1 + t * (x2 - x1))) * (x - (x1 + t * (x2 - x1)))
           + (y - (y1 + t * (y2 - y1))) * (y - (y1 + t * (y2 - y1))))
        = (s - t) * ((s + t) * L - 2 * W)"
      unfolding L_def W_def by (simp add: power2_eq_square algebra_simps)
    have le: "(x - (x1 + t * (x2 - x1))) * (x - (x1 + t * (x2 - x1)))
           + (y - (y1 + t * (y2 - y1))) * (y - (y1 + t * (y2 - y1)))
        \<le> (x - (x1 + s * (x2 - x1)))\<^sup>2 + (y - (y1 + s * (y2 - y1)))\<^sup>2"
      using q id by linarith
    have "distanceToLineSegment p b = sqrt ((x - (x1 + t * (x2 - x1))) * (x - (x1 + t * (x2 - x1)))
           + (y - (y1 + t * (y2 - y1))) * (y - (y1 + t * (y2 - y1))))"
      using False unfolding distanceToLineSegment_def Let_def d[symmetric] L_def[symmetric]
        W_def[symmetric] t_def by simp
    moreover have "distanceToBorderPoint p b s
        = sqrt ((x - (x1 + s * (x2 - x1)))\<^sup>2 + (y - (y1 + s * (y2 - y1)))\<^sup>2)"
      unfolding distanceToBorderPoint_def d by simp
    ultimately show ?thesis using le by (simp only: real_sqrt_le_iff)
  qed
qed

lemma distanceToLineSegment_attained:
  "\<exists>s. 0 \<le> s \<and> s \<le> 1 \<and> distanceToLineSegment p b = distanceToBorderPoint p b s"
proof -
  define x y x1 y1 x2 y2 where d: "x = lon p" "y = lat p" "x1 = startLon b" "y1 = startLat b"
    "x2 = endLon b" "y2 = endLat b"
  define L where "L = (x2 - x1) * (x2 - x1) + (y2 - y1) * (y2 - y1)"
  define W where "W = (x - x1) * (x2 - x1) + (y - y1) * (y2 - y1)"
  show ?thesis
  proof (cases "L = 0")
    case True
    then have "distanceToLineSegment p b = distanceToBorderPoint p b 0"
      unfolding distanceToLineSegment_def distanceToBorderPoint_def Let_def
        d[symmetric] L_def[symmetric]
      by (simp add: power2_eq_square)
    then show ?thesis by (intro exI[of _ 0]) simp
  next
    case False
    define t where "t = max 0 (min 1 (W / L))"
    have "distanceToLineSegment p b = distanceToBorderPoint p b t"
      using False unfolding distanceToLineSegment_def distanceToBorderPoint_def Let_def
        d[symmetric] L_def[symmetric] W_def[symmetric] t_def
      by (simp add: power2_eq_square)
    moreover have "0 \<le> t" "t \<le> 1" unfolding t_def by simp_all
    ultimately show ?thesis by blast
  qed
qed

text \<open>Every common point of the two segments is found by \<open>lineSegmentIntersection\<close>,
  and the closest-point loop keeps the first sample of minimum distance.\<close>

lemma lineSegmentIntersection_complete:
  fixes x1 y1 x2 y2 x3 y3 x4 y4 t u :: real
  assumes big: "1 / 10 ^ 10 \<le> \<bar>(x1 - x2) * (y3 - y4) - (y1 - y2) * (x3 - x4)\<bar>"
    and t: "0 \<le> t" "t \<le> 1" and u: "0 \<le> u" "u \<le> 1"
    and ex: "x1 + t * (x2 - x1) = x3 + u * (x4 - x3)"
    and ey: "y1 + t * (y2 - y1) = y3 + u * (y4 - y3)"
  shows "lineSegmentIntersection x1 y1 x2 y2 x3 y3 x4 y4
           = Some \<lparr> i_lon = x1 + t * (x2 - x1), i_lat = y1 + t * (y2 - y1), i_t = t \<rparr>"
proof -
  define denom where "denom = (x1 - x2) * (y3 - y4) - (y1 - y2) * (x3 - x4)"
  have "(0::real) < 1 / 10 ^ 10" by simp
  then have "0 < \<bar>denom\<bar>" using big unfolding denom_def by linarith
  then have nz: "denom \<noteq> 0" by simp
  have dx: "x1 - x3 = u * (x4 - x3) - t * (x2 - x1)" using ex by linarith
  have dy: "y1 - y3 = u * (y4 - y3) - t * (y2 - y1)" using ey by linarith
  have "(x1 - x3) * (y3 - y4) - (y1 - y3) * (x3 - x4) = t * denom"
    unfolding dx dy denom_def by (simp add: algebra_simps)
  then have tt: "((x1 - x3) * (y3 - y4) - (y1 - y3) * (x3 - x4)) / denom = t"
    using nz by simp
  have "- ((x1 - x2) * (y1 - y3) - (y1 - y2) * (x1 - x3)) = u * denom"
    unfolding dx dy denom_def by (simp add: algebra_simps)
  then have uu: "- ((x1 - x2) * (y1 - y3) - (y1 - y2) * (x1 - x3)) / denom = u"
    using nz by simp
  have nb: "\<not> \<bar>denom\<bar> < 1 / 10 ^ 10" using big unfolding denom_def by linarith
  show ?thesis
    unfolding lineSegmentIntersection_def Let_def denom_def[symmetric] tt uu
    using nb t u by simp
qed

lemma closestScan_first_min:
  "(closestScan xs b d0 t0 = t0 \<and> (\<forall>q \<in> set xs. \<not> distanceToLineSegment q b < d0))
   \<or> (\<exists>pre p post. xs = pre @ p # post \<and> closestScan xs b d0 t0 = time p
         \<and> distanceToLineSegment p b < d0
         \<and> (\<forall>q \<in> set pre. distanceToLineSegment p b < distanceToLineSegment q b)
         \<and> (\<forall>q \<in> set post. distanceToLineSegment p b \<le> distanceToLineSegment q b))"
proof (induction xs arbitrary: d0 t0)
  case Nil
  then show ?case by simp
next
  case (Cons x xs)
  show ?case
  proof (cases "distanceToLineSegment x b < d0")
    case True
    then have step: "closestScan (x # xs) b d0 t0 = closestScan xs b (distanceToLineSegment x b) (time x)"
      by (simp add: Let_def)
    from Cons.IH[of "distanceToLineSegment x b" "time x"]
    show ?thesis
    proof (elim disjE exE conjE)
      assume a: "closestScan xs b (distanceToLineSegment x b) (time x) = time x"
        "\<forall>q \<in> set xs. \<not> distanceToLineSegment q b < distanceToLineSegment x b"
      have "x # xs = [] @ x # xs" by simp
      moreover have "\<forall>q \<in> set xs. distanceToLineSegment x b \<le> distanceToLineSegment q b"
        using a(2) by (simp add: not_less)
      ultimately show ?thesis using a(1) step True by (intro disjI2 exI[of _ "[]"] exI[of _ x] exI[of _ xs]) simp
    next
      fix pre p post
      assume a: "xs = pre @ p # post"
        "closestScan xs b (distanceToLineSegment x b) (time x) = time p"
        "distanceToLineSegment p b < distanceToLineSegment x b"
        "\<forall>q \<in> set pre. distanceToLineSegment p b < distanceToLineSegment q b"
        "\<forall>q \<in> set post. distanceToLineSegment p b \<le> distanceToLineSegment q b"
      have "x # xs = (x # pre) @ p # post" using a(1) by simp
      moreover have "distanceToLineSegment p b < d0" using a(3) True by linarith
      moreover have "\<forall>q \<in> set (x # pre). distanceToLineSegment p b < distanceToLineSegment q b"
        using a(3,4) by simp
      ultimately show ?thesis using a(2,5) step
        by (intro disjI2 exI[of _ "x # pre"] exI[of _ p] exI[of _ post]) simp
    qed
  next
    case False
    then have step: "closestScan (x # xs) b d0 t0 = closestScan xs b d0 t0"
      by (simp add: Let_def)
    from Cons.IH[of d0 t0]
    show ?thesis
    proof (elim disjE exE conjE)
      assume a: "closestScan xs b d0 t0 = t0" "\<forall>q \<in> set xs. \<not> distanceToLineSegment q b < d0"
      then show ?thesis using step False by simp
    next
      fix pre p post
      assume a: "xs = pre @ p # post"
        "closestScan xs b d0 t0 = time p"
        "distanceToLineSegment p b < d0"
        "\<forall>q \<in> set pre. distanceToLineSegment p b < distanceToLineSegment q b"
        "\<forall>q \<in> set post. distanceToLineSegment p b \<le> distanceToLineSegment q b"
      have "x # xs = (x # pre) @ p # post" using a(1) by simp
      moreover have "\<forall>q \<in> set (x # pre). distanceToLineSegment p b < distanceToLineSegment q b"
        using a(3,4) False by auto
      ultimately show ?thesis using a(2,3,5) step
        by (intro disjI2 exI[of _ "x # pre"] exI[of _ p] exI[of _ post]) simp
    qed
  qed
qed

lemma fallback_first_min:
  assumes "lapData \<noteq> []" and "crossingScan lapData b = None"
  shows "\<exists>pre p post. lapData = pre @ p # post \<and> findBorderCrossing lapData b = Inr (time p)
         \<and> (\<forall>q \<in> set pre. distanceToLineSegment p b < distanceToLineSegment q b)
         \<and> (\<forall>q \<in> set post. distanceToLineSegment p b \<le> distanceToLineSegment q b)"
proof -
  from assms(1) obtain first others where l: "lapData = first # others" by (cases lapData) auto
  have r: "findBorderCrossing lapData b
      = Inr (closestScan lapData b (distanceToLineSegment first b) (time first))"
    using l assms(2) by (simp add: findBorderCrossing_def)
  from closestScan_first_min[of lapData b "distanceToLineSegment first b" "time first"]
  show ?thesis
  proof (elim disjE exE conjE)
    assume a: "closestScan lapData b (distanceToLineSegment first b) (time first) = time first"
      "\<forall>q \<in> set lapData. \<not> distanceToLineSegment q b < distanceToLineSegment first b"
    have "lapData = [] @ first # others" using l by simp
    moreover have "\<forall>q \<in> set others. distanceToLineSegment first b \<le> distanceToLineSegment q b"
      using a(2) l by (simp add: not_less)
    ultimately show ?thesis using a(1) r
      by (intro exI[of _ "[]"] exI[of _ first] exI[of _ others]) simp
  next
    fix pre p post
    assume "lapData = pre @ p # post"
      "closestScan lapData b (distanceToLineSegment first b) (time first) = time p"
      "\<forall>q \<in> set pre. distanceToLineSegment p b < distanceToLineSegment q b"
      "\<forall>q \<in> set post. distanceToLineSegment p b \<le> distanceToLineSegment q b"
    then show ?thesis using r by (intro exI[of _ pre] exI[of _ p] exI[of _ post]) simp
  qed
qed

lemma scenario_first_pair_misses: "pairIntersection (samplePoint 0 50 0 0) (samplePoint 2 50 0 2) (segmentBorder (-1) 3 1 3) = None"
  by (simp add: pairIntersection_def lineSegmentIntersection_def samplePoint_def segmentBorder_def)

lemma scenario_second_pair_hits: "pairIntersection (samplePoint 2 50 0 2) (samplePoint 4 50 0 4) (segmentBorder (-1) 3 1 3)
   = Some \<lparr> i_lon = 3, i_lat = 0, i_t = 1/2 \<rparr>"
  by (simp add: pairIntersection_def lineSegmentIntersection_def samplePoint_def segmentBorder_def)

text \<open>A lap that stays off the border from latitude 5, longitude 0 to latitude 5,
  longitude 1: the first pair meets the line of the border outside both segments, the
  second pair is parallel to it.\<close>

lemma scenario_off_border_pairs:
  "pairIntersection (samplePoint 0 50 4 10) (samplePoint 2 50 3 (-1)) (segmentBorder 5 0 5 1) = None"
  "pairIntersection (samplePoint 2 50 3 (-1)) (samplePoint 4 50 3 (-5)) (segmentBorder 5 0 5 1) = None"
  by (simp_all add: pairIntersection_def lineSegmentIntersection_def samplePoint_def segmentBorder_def)

lemma scenario_off_border_distances:
  "distanceToLineSegment (samplePoint 0 50 4 10) (segmentBorder 5 0 5 1) = sqrt 82"
  "distanceToLineSegment (samplePoint 2 50 3 (-1)) (segmentBorder 5 0 5 1) = sqrt 5"
  "distanceToLineSegment (samplePoint 4 50 3 (-5)) (segmentBorder 5 0 5 1) = sqrt 29"
  by (simp_all add: distanceToLineSegment_def samplePoint_def segmentBorder_def Let_def)

text \<open>
  Claim C6. A pair of consecutive samples intersects the border exactly when the
  determinant of the two segments is at least 1e-10 in absolute value and the
  trajectory segment and the border segment have a common point, at parameters in
  [0,1] on both; the intersection carries the parameter on the trajectory segment.
  \<^verbatim>\<open>findBorderCrossing\<close> returns, at the first pair (in trajectory order) that
  intersects, the time interpolated by that parameter; for an interior parameter and
  distinct sample times the result lies strictly between the two sample times.
  \<^verbatim>\<open>distanceToLineSegment\<close> is the minimum distance from the sample to the points of
  the finite border segment: it is at most the distance to each point of the segment
  and is the distance to one of them. When no pair intersects, the result is the time
  of the first sample whose distance to the border segment is minimal. On a non-empty
  lap a value is always returned.
\<close>

theorem findBorderCrossing_first_intersection_else_closest:
  "(\<forall>k r. Suc k < length lapData
        \<and> (\<forall>i<k. pairIntersection (lapData ! i) (lapData ! Suc i) border = None)
        \<and> pairIntersection (lapData ! k) (lapData ! Suc k) border = Some r
        \<and> time (lapData ! k) \<le> time (lapData ! Suc k) \<longrightarrow>
      0 \<le> i_t r \<and> i_t r \<le> 1
      \<and> (\<exists>u. 0 \<le> u \<and> u \<le> 1
            \<and> lon (lapData ! k) + i_t r * (lon (lapData ! Suc k) - lon (lapData ! k))
                = startLon border + u * (endLon border - startLon border)
            \<and> lat (lapData ! k) + i_t r * (lat (lapData ! Suc k) - lat (lapData ! k))
                = startLat border + u * (endLat border - startLat border))
      \<and> findBorderCrossing lapData border
          = Inr (time (lapData ! k) + i_t r * (time (lapData ! Suc k) - time (lapData ! k)))
      \<and> (0 < i_t r \<and> i_t r < 1 \<and> time (lapData ! k) < time (lapData ! Suc k) \<longrightarrow>
            time (lapData ! k) < time (lapData ! k) + i_t r * (time (lapData ! Suc k) - time (lapData ! k))
          \<and> time (lapData ! k) + i_t r * (time (lapData ! Suc k) - time (lapData ! k)) < time (lapData ! Suc k)))
   \<and> (\<forall>x1 y1 x2 y2 x3 y3 x4 y4.
        \<bar>(x1 - x2) * (y3 - y4) - (y1 - y2) * (x3 - x4)\<bar> < 1 / 10 ^ 10 \<longrightarrow>
        lineSegmentIntersection x1 y1 x2 y2 x3 y3 x4 y4 = None)
   \<and> (\<forall>point1 point2 r.
        pairIntersection point1 point2 border = Some r \<longleftrightarrow>
          1 / 10 ^ 10 \<le> \<bar>(lon point1 - lon point2) * (startLat border - endLat border)
                          - (lat point1 - lat point2) * (startLon border - endLon border)\<bar>
          \<and> 0 \<le> i_t r \<and> i_t r \<le> 1
          \<and> i_lon r = lon point1 + i_t r * (lon point2 - lon point1)
          \<and> i_lat r = lat point1 + i_t r * (lat point2 - lat point1)
          \<and> (\<exists>u. 0 \<le> u \<and> u \<le> 1
                \<and> lon point1 + i_t r * (lon point2 - lon point1)
                    = startLon border + u * (endLon border - startLon border)
                \<and> lat point1 + i_t r * (lat point2 - lat point1)
                    = startLat border + u * (endLat border - startLat border)))
   \<and> (\<forall>q s. 0 \<le> s \<and> s \<le> 1 \<longrightarrow> distanceToLineSegment q border \<le> distanceToBorderPoint q border s)
   \<and> (\<forall>q. \<exists>s. 0 \<le> s \<and> s \<le> 1 \<and> distanceToLineSegment q border = distanceToBorderPoint q border s)
   \<and> (lapData \<noteq> []
        \<and> (\<forall>i. Suc i < length lapData \<longrightarrow> pairIntersection (lapData ! i) (lapData ! Suc i) border = None) \<longrightarrow>
      (\<exists>pre p post. lapData = pre @ p # post
          \<and> findBorderCrossing lapData border = Inr (time p)
          \<and> (\<forall>q \<in> set lapData. distanceToLineSegment p border \<le> distanceToLineSegment q border)
          \<and> (\<forall>q \<in> set pre. distanceToLineSegment p border < distanceToLineSegment q border)))
   \<and> (lapData \<noteq> [] \<longrightarrow> (\<exists>c. findBorderCrossing lapData border = Inr c))"
proof -
  have c1: "0 \<le> i_t r \<and> i_t r \<le> 1
      \<and> (\<exists>u. 0 \<le> u \<and> u \<le> 1
            \<and> lon (lapData ! k) + i_t r * (lon (lapData ! Suc k) - lon (lapData ! k))
                = startLon border + u * (endLon border - startLon border)
            \<and> lat (lapData ! k) + i_t r * (lat (lapData ! Suc k) - lat (lapData ! k))
                = startLat border + u * (endLat border - startLat border))
      \<and> findBorderCrossing lapData border
          = Inr (time (lapData ! k) + i_t r * (time (lapData ! Suc k) - time (lapData ! k)))
      \<and> (0 < i_t r \<and> i_t r < 1 \<and> time (lapData ! k) < time (lapData ! Suc k) \<longrightarrow>
            time (lapData ! k) < time (lapData ! k) + i_t r * (time (lapData ! Suc k) - time (lapData ! k))
          \<and> time (lapData ! k) + i_t r * (time (lapData ! Suc k) - time (lapData ! k)) < time (lapData ! Suc k))"
    if h: "Suc k < length lapData
        \<and> (\<forall>i<k. pairIntersection (lapData ! i) (lapData ! Suc i) border = None)
        \<and> pairIntersection (lapData ! k) (lapData ! Suc k) border = Some r
        \<and> time (lapData ! k) \<le> time (lapData ! Suc k)" for k r
  proof (intro conjI impI)
    from h have hit: "lineSegmentIntersection (lon (lapData ! k)) (lat (lapData ! k))
        (lon (lapData ! Suc k)) (lat (lapData ! Suc k))
        (startLon border) (startLat border) (endLon border) (endLat border) = Some r"
      by (simp add: pairIntersection_def)
    from lineSegmentIntersection_Some[OF hit]
    show "0 \<le> i_t r" "i_t r \<le> 1" by simp_all
    from lineSegmentIntersection_on_gate[OF hit] lineSegmentIntersection_Some[OF hit]
    show "\<exists>u. 0 \<le> u \<and> u \<le> 1
              \<and> lon (lapData ! k) + i_t r * (lon (lapData ! Suc k) - lon (lapData ! k))
                  = startLon border + u * (endLon border - startLon border)
              \<and> lat (lapData ! k) + i_t r * (lat (lapData ! Suc k) - lat (lapData ! k))
                  = startLat border + u * (endLat border - startLat border)"
      by auto
    from h have "lapData \<noteq> []" by auto
    then obtain first others where "lapData = first # others" by (cases lapData) auto
    moreover from h have "crossingScan lapData border
        = Some (time (lapData ! k) + i_t r * (time (lapData ! Suc k) - time (lapData ! k)))"
      by (intro crossingScan_first) auto
    ultimately show "findBorderCrossing lapData border
            = Inr (time (lapData ! k) + i_t r * (time (lapData ! Suc k) - time (lapData ! k)))"
      by (simp add: findBorderCrossing_def)
  next
    assume "0 < i_t r \<and> i_t r < 1 \<and> time (lapData ! k) < time (lapData ! Suc k)"
    then have t: "0 < i_t r" "i_t r < 1" and d: "0 < time (lapData ! Suc k) - time (lapData ! k)"
      by simp_all
    from t(1) d show "time (lapData ! k) < time (lapData ! k) + i_t r * (time (lapData ! Suc k) - time (lapData ! k))"
      by simp
    have "i_t r * (time (lapData ! Suc k) - time (lapData ! k)) < 1 * (time (lapData ! Suc k) - time (lapData ! k))"
      using t(2) d by (intro mult_strict_right_mono)
    then show "time (lapData ! k) + i_t r * (time (lapData ! Suc k) - time (lapData ! k)) < time (lapData ! Suc k)"
      by simp
  qed
  have c2: "lineSegmentIntersection x1 y1 x2 y2 x3 y3 x4 y4 = None"
    if "\<bar>(x1 - x2) * (y3 - y4) - (y1 - y2) * (x3 - x4)\<bar> < 1 / 10 ^ 10"
    for x1 y1 x2 y2 x3 y3 x4 y4 :: real
    using that by (simp add: lineSegmentIntersection_def)
  have c3: "pairIntersection point1 point2 border = Some r \<longleftrightarrow>
          1 / 10 ^ 10 \<le> \<bar>(lon point1 - lon point2) * (startLat border - endLat border)
                          - (lat point1 - lat point2) * (startLon border - endLon border)\<bar>
          \<and> 0 \<le> i_t r \<and> i_t r \<le> 1
          \<and> i_lon r = lon point1 + i_t r * (lon point2 - lon point1)
          \<and> i_lat r = lat point1 + i_t r * (lat point2 - lat point1)
          \<and> (\<exists>u. 0 \<le> u \<and> u \<le> 1
                \<and> lon point1 + i_t r * (lon point2 - lon point1)
                    = startLon border + u * (endLon border - startLon border)
                \<and> lat point1 + i_t r * (lat point2 - lat point1)
                    = startLat border + u * (endLat border - startLat border))"
    (is "?hit \<longleftrightarrow> ?geo") for point1 point2 r
  proof
    assume ?hit
    then have hit: "lineSegmentIntersection (lon point1) (lat point1) (lon point2) (lat point2)
        (startLon border) (startLat border) (endLon border) (endLat border) = Some r"
      by (simp add: pairIntersection_def)
    from lineSegmentIntersection_on_gate[OF hit] lineSegmentIntersection_Some[OF hit]
    show ?geo by auto
  next
    assume g: ?geo
    then obtain u where u: "0 \<le> u" "u \<le> 1"
      "lon point1 + i_t r * (lon point2 - lon point1) = startLon border + u * (endLon border - startLon border)"
      "lat point1 + i_t r * (lat point2 - lat point1) = startLat border + u * (endLat border - startLat border)"
      by blast
    from g have big: "1 / 10 ^ 10 \<le> \<bar>(lon point1 - lon point2) * (startLat border - endLat border)
                          - (lat point1 - lat point2) * (startLon border - endLon border)\<bar>"
      and t: "0 \<le> i_t r" "i_t r \<le> 1"
      and r: "i_lon r = lon point1 + i_t r * (lon point2 - lon point1)"
             "i_lat r = lat point1 + i_t r * (lat point2 - lat point1)"
      by simp_all
    have "r = \<lparr> i_lon = lon point1 + i_t r * (lon point2 - lon point1),
                i_lat = lat point1 + i_t r * (lat point2 - lat point1), i_t = i_t r \<rparr>"
      using r by (cases r) simp
    with lineSegmentIntersection_complete[OF big t u(1,2) u(3) u(4)]
    show ?hit by (simp add: pairIntersection_def)
  qed
  have c4: "distanceToLineSegment q border \<le> distanceToBorderPoint q border s"
    if "0 \<le> s \<and> s \<le> 1" for q s
    using that by (intro distanceToLineSegment_le) simp_all
  have c5: "\<exists>s. 0 \<le> s \<and> s \<le> 1 \<and> distanceToLineSegment q border = distanceToBorderPoint q border s" for q
    by (rule distanceToLineSegment_attained)
  have c6: "\<exists>pre p post. lapData = pre @ p # post
          \<and> findBorderCrossing lapData border = Inr (time p)
          \<and> (\<forall>q \<in> set lapData. distanceToLineSegment p border \<le> distanceToLineSegment q border)
          \<and> (\<forall>q \<in> set pre. distanceToLineSegment p border < distanceToLineSegment q border)"
    if h: "lapData \<noteq> []
        \<and> (\<forall>i. Suc i < length lapData \<longrightarrow> pairIntersection (lapData ! i) (lapData ! Suc i) border = None)"
  proof -
    from h have none: "crossingScan lapData border = None" by (intro crossingScan_none) simp
    from h have ne: "lapData \<noteq> []" by simp
    from fallback_first_min[OF ne none]
    obtain pre p post where d: "lapData = pre @ p # post"
      and v: "findBorderCrossing lapData border = Inr (time p)"
      and a: "\<forall>q \<in> set pre. distanceToLineSegment p border < distanceToLineSegment q border"
      and b: "\<forall>q \<in> set post. distanceToLineSegment p border \<le> distanceToLineSegment q border"
      by blast
    have "\<forall>q \<in> set lapData. distanceToLineSegment p border \<le> distanceToLineSegment q border"
    proof
      fix q assume "q \<in> set lapData"
      then have "q \<in> set pre \<or> q = p \<or> q \<in> set post" unfolding d by auto
      then show "distanceToLineSegment p border \<le> distanceToLineSegment q border"
        using a b by (auto simp: less_imp_le)
    qed
    with d v a show ?thesis by blast
  qed
  have c7: "\<exists>c. findBorderCrossing lapData border = Inr c" if "lapData \<noteq> []"
    using that by (rule findBorderCrossing_total)
  show ?thesis
    apply (intro conjI allI)
    subgoal for k r by (rule impI, rule c1)
    subgoal for x1 y1 x2 y2 x3 y3 x4 y4 by (rule impI, rule c2)
    subgoal for point1 point2 r by (rule c3)
    subgoal for q s by (rule impI, rule c4)
    subgoal for q by (rule c5)
    subgoal by (rule impI, rule c6)
    subgoal by (rule impI, rule c7)
    done
qed

theorem findBorderCrossing_first_intersection_else_closest_witness:
  "findBorderCrossing [samplePoint 0 50 0 0, samplePoint 2 50 0 2, samplePoint 4 50 0 4]
      (segmentBorder (-1) 3 1 3) = Inr 3
   \<and> time (samplePoint 2 50 0 2) < 3 \<and> 3 < time (samplePoint 4 50 0 4)
   \<and> pairIntersection (samplePoint 2 50 0 2) (samplePoint 4 50 0 4) (segmentBorder (-1) 3 1 3)
       = Some \<lparr> i_lon = 3, i_lat = 0, i_t = 1/2 \<rparr>
   \<and> findBorderCrossing [samplePoint 0 50 4 10, samplePoint 2 50 3 (-1), samplePoint 4 50 3 (-5)]
       (segmentBorder 5 0 5 1) = Inr 2
   \<and> distanceToLineSegment (samplePoint 0 50 4 10) (segmentBorder 5 0 5 1) = sqrt 82
   \<and> distanceToLineSegment (samplePoint 2 50 3 (-1)) (segmentBorder 5 0 5 1) = sqrt 5
   \<and> distanceToLineSegment (samplePoint 4 50 3 (-5)) (segmentBorder 5 0 5 1) = sqrt 29
   \<and> distanceToBorderPoint (samplePoint 2 50 3 (-1)) (segmentBorder 5 0 5 1) 0 = sqrt 5"
proof -
  let ?L = "[samplePoint 0 50 0 0, samplePoint 2 50 0 2, samplePoint 4 50 0 4]"
  let ?r = "\<lparr> i_lon = 3, i_lat = 0, i_t = 1/2 \<rparr>"
  have a: "Suc 1 < length ?L
        \<and> (\<forall>i<1. pairIntersection (?L ! i) (?L ! Suc i) (segmentBorder (-1) 3 1 3) = None)
        \<and> pairIntersection (?L ! 1) (?L ! Suc 1) (segmentBorder (-1) 3 1 3) = Some ?r
        \<and> time (?L ! 1) \<le> time (?L ! Suc 1)"
    using scenario_first_pair_misses scenario_second_pair_hits by (simp add: samplePoint_def)
  from findBorderCrossing_first_intersection_else_closest[of ?L "segmentBorder (-1) 3 1 3", THEN conjunct1, rule_format, OF a]
  have 1: "findBorderCrossing ?L (segmentBorder (-1) 3 1 3) = Inr 3"
    by (simp add: samplePoint_def)
  let ?M = "[samplePoint 0 50 4 10, samplePoint 2 50 3 (-1), samplePoint 4 50 3 (-5)]"
  let ?B = "segmentBorder 5 0 5 1"
  have b: "?M \<noteq> [] \<and> (\<forall>i. Suc i < length ?M \<longrightarrow>
      pairIntersection (?M ! i) (?M ! Suc i) ?B = None)"
  proof (intro conjI allI impI)
    fix i assume "Suc i < length ?M"
    then have "i = 0 \<or> i = 1" by auto
    then show "pairIntersection (?M ! i) (?M ! Suc i) ?B = None"
      using scenario_off_border_pairs by auto
  qed simp
  from findBorderCrossing_first_intersection_else_closest[of ?M ?B,
      THEN conjunct2, THEN conjunct2, THEN conjunct2, THEN conjunct2, THEN conjunct2, THEN conjunct1,
      rule_format, OF b]
  obtain pre p post where d: "?M = pre @ p # post"
    and v: "findBorderCrossing ?M ?B = Inr (time p)"
    and m: "\<forall>q \<in> set ?M. distanceToLineSegment p ?B \<le> distanceToLineSegment q ?B"
    by blast
  have "p \<in> set ?M" unfolding d by simp
  then have "p = samplePoint 0 50 4 10 \<or> p = samplePoint 2 50 3 (-1) \<or> p = samplePoint 4 50 3 (-5)"
    by simp
  moreover have "distanceToLineSegment p ?B \<le> sqrt 5"
    using m scenario_off_border_distances(2) by simp
  ultimately have "p = samplePoint 2 50 3 (-1)"
    using scenario_off_border_distances by auto
  with v have 2: "findBorderCrossing ?M ?B = Inr 2" by (simp add: samplePoint_def)
  have 3: "time (samplePoint 2 50 0 2) < 3" "3 < time (samplePoint 4 50 0 4)"
    by (simp_all add: samplePoint_def)
  have 4: "distanceToBorderPoint (samplePoint 2 50 3 (-1)) ?B 0 = sqrt 5"
    by (simp add: distanceToBorderPoint_def samplePoint_def segmentBorder_def)
  from 1 2 3 4 scenario_second_pair_hits scenario_off_border_distances show ?thesis by simp
qed

section \<open>Properties of the deceleration detection\<close>

lemma decelLoop_spec:
  assumes "sorted_wrt (<) (map time xs)" "xs \<noteq> []"
  shows "case decelLoop xs i cur acc of (cur', acc') \<Rightarrow>
      map (\<lambda>e. (startTime e, endTime e)) acc' @
        (case cur' of None \<Rightarrow> []
         | Some (start, startIdx) \<Rightarrow>
             if time (last xs) - start \<ge> 0.2 then [(start, time (last xs))] else [])
      = map (\<lambda>e. (startTime e, endTime e)) acc @ specEpisodes (map_option fst cur) xs"
  using assms
proof (induction xs arbitrary: i cur acc)
  case Nil
  then show ?case by simp
next
  case (Cons previous tail)
  show ?case
  proof (cases tail)
    case Nil
    then show ?thesis by (cases cur) auto
  next
    case tl: (Cons current rest)
    from Cons.prems tl have lt: "time previous < time current"
      and srt: "sorted_wrt (<) (map time tail)" by auto
    then have td: "\<not> time current - time previous \<le> 0" by simp
    define a where "a = (speed current - speed previous) / (time current - time previous)"
    have acc_eq: "accelerationOf previous current = a" by (simp add: a_def accelerationOf_def)
    have ne: "tail \<noteq> []" using tl by simp
    have lst: "last (previous # tail) = last tail" using ne by simp
    note IH = Cons.IH[OF srt ne]
    show ?thesis
    proof (cases cur)
      case None
      show ?thesis
      proof (cases "a < - 0.5")
        case True
        then have "\<not> a \<ge> - 0.5" by simp
        with IH[where i="i + 1" and cur="Some (time previous, i - 1)" and acc=acc] None True td
        show ?thesis
          unfolding lst unfolding tl
          by (simp add: a_def[symmetric] acc_eq Let_def split: prod.splits)
      next
        case False
        with IH[where i="i + 1" and cur=None and acc=acc] None td
        show ?thesis
          unfolding lst unfolding tl
          by (simp add: a_def[symmetric] acc_eq Let_def split: prod.splits)
      qed
    next
      case (Some sp)
      obtain start startIdx where sp: "sp = (start, startIdx)" by (cases sp)
      show ?thesis
      proof (cases "a \<ge> - 0.5")
        case True
        then have na: "\<not> a < - 0.5" by simp
        show ?thesis
        proof (cases "time current - start \<ge> 1.0")
          case long: True
          from IH[where i="i + 1" and cur=None and acc="acc @ [\<lparr> startTime = start, endTime = time current,
                                duration = time current - start,
                                startIndex = startIdx, endIndex = i \<rparr>]"]
            Some sp True td na long
          show ?thesis
            unfolding lst unfolding tl
            by (simp add: a_def[symmetric] acc_eq Let_def split: prod.splits)
        next
          case short: False
          from IH[where i="i + 1" and cur=None and acc=acc] Some sp True td na short
          show ?thesis
            unfolding lst unfolding tl
            by (simp add: a_def[symmetric] acc_eq Let_def split: prod.splits)
        qed
      next
        case False
        from IH[where i="i + 1" and cur="Some (start, startIdx)" and acc=acc] Some sp False td
        show ?thesis
          unfolding lst unfolding tl
          by (simp add: a_def[symmetric] acc_eq Let_def split: prod.splits)
      qed
    qed
  qed
qed

lemma decelLoop_invariant:
  assumes "\<forall>e \<in> set acc. P e"
    and "\<And>start startIdx endT k. 1.0 \<le> endT - start \<Longrightarrow>
      P \<lparr> startTime = start, endTime = endT, duration = endT - start,
          startIndex = startIdx, endIndex = k \<rparr>"
  shows "\<forall>e \<in> set (snd (decelLoop xs i cur acc)). P e"
  using assms(1)
proof (induction xs arbitrary: i cur acc)
  case Nil
  then show ?case by simp
next
  case (Cons previous tail)
  show ?case
  proof (cases tail)
    case Nil
    with Cons.prems show ?thesis by simp
  next
    case tl: (Cons current rest)
    define a where "a = (speed current - speed previous) / (time current - time previous)"
    define opened where "opened = (if a < - 0.5 \<and> cur = None then Some (time previous, i - 1) else cur)"
    have step: "decelLoop (previous # tail) i cur acc =
      (if time current - time previous \<le> 0 then decelLoop tail (i + 1) cur acc
       else case opened of
          Some (start, startIdx) \<Rightarrow>
            if a \<ge> - 0.5
            then decelLoop tail (i + 1) None
                   (if time current - start \<ge> 1.0
                    then acc @ [\<lparr> startTime = start, endTime = time current,
                                   duration = time current - start,
                                   startIndex = startIdx, endIndex = i \<rparr>]
                    else acc)
            else decelLoop tail (i + 1) opened acc
        | None \<Rightarrow> decelLoop tail (i + 1) None acc)"
      unfolding tl a_def opened_def by (simp add: Let_def)
    have ok: "\<And>start startIdx. \<forall>e \<in> set (if time current - start \<ge> 1.0
                    then acc @ [\<lparr> startTime = start, endTime = time current,
                                   duration = time current - start,
                                   startIndex = startIdx, endIndex = i \<rparr>]
                    else acc). P e"
      using Cons.prems assms(2) by simp
    show ?thesis
      unfolding step
      using Cons.IH[OF Cons.prems] Cons.IH[OF ok]
      by (simp split: option.splits prod.splits)
  qed
qed

lemma decelLoop_closed:
  "\<forall>e \<in> set (snd (decelLoop xs i cur [])).
           duration e = endTime e - startTime e \<and> 1.0 \<le> duration e"
  by (rule decelLoop_invariant) simp_all


text \<open>
  Claim C7. On a lap whose sample times strictly increase, the periods found by step 1
  of \<^verbatim>\<open>findAccelerationPeriods\<close> are exactly the episodes of the rule: an episode opens
  at a pair with acceleration below -0.5 and closes at the next pair with acceleration
  of at least -0.5; a closed episode is kept if and only if it lasts at least 1.0 s;
  an episode still open at the last sample ends there and is kept if and only if it
  lasts at least 0.2 s. Every period found records its duration as end minus start,
  and lasts at least 1.0 s unless it ends at the last sample, where 0.2 s suffice.
\<close>

theorem decelerationPeriodsOf_follows_episode_rule:
  assumes "sorted_wrt (<) (map time lapData)"
  shows "map (\<lambda>e. (startTime e, endTime e)) (decelerationPeriodsOf lapData) = specEpisodes None lapData
    \<and> (\<forall>e \<in> set (decelerationPeriodsOf lapData).
          duration e = endTime e - startTime e
          \<and> (1.0 \<le> duration e \<or> (endTime e = time (last lapData) \<and> 0.2 \<le> duration e)))"
proof
  obtain cur' acc' where r: "decelLoop lapData 1 None [] = (cur', acc')"
    by (cases "decelLoop lapData 1 None []")
  show "map (\<lambda>e. (startTime e, endTime e)) (decelerationPeriodsOf lapData) = specEpisodes None lapData"
  proof (cases "lapData = []")
    case True
    then show ?thesis by (simp add: decelerationPeriodsOf_def)
  next
    case False
    from decelLoop_spec[OF assms False, where i=1 and cur=None and acc="[]"] r
    show ?thesis
      by (cases cur') (auto simp: decelerationPeriodsOf_def Let_def)
  qed
  have "\<forall>e \<in> set (snd (decelLoop lapData 1 None [])).
          duration e = endTime e - startTime e \<and> 1.0 \<le> duration e"
    by (rule decelLoop_closed)
  with r show "\<forall>e \<in> set (decelerationPeriodsOf lapData).
          duration e = endTime e - startTime e
          \<and> (1.0 \<le> duration e \<or> (endTime e = time (last lapData) \<and> 0.2 \<le> duration e))"
    by (cases cur') (auto simp: decelerationPeriodsOf_def Let_def)
qed


theorem decelerationPeriodsOf_follows_episode_rule_witness:
  "sorted_wrt (<) (map time raceBestLap)
   \<and> map (\<lambda>e. (startTime e, endTime e)) (decelerationPeriodsOf raceBestLap) = [(15, 17), (22, 24)]
   \<and> sorted_wrt (<) (map time closedShort)
   \<and> decelerationPeriodsOf closedShort = []
   \<and> sorted_wrt (<) (map time danglingShort)
   \<and> map (\<lambda>e. (startTime e, endTime e)) (decelerationPeriodsOf danglingShort) = [(0, 0.5)]"
proof -
  have a: "sorted_wrt (<) (map time raceBestLap)"
    and b: "sorted_wrt (<) (map time closedShort)"
    and c: "sorted_wrt (<) (map time danglingShort)"
    by (simp_all add: raceBestLap_def closedShort_def danglingShort_def samplePoint_def)
  have 1: "specEpisodes None raceBestLap = [(15, 17), (22, 24)]"
    by (simp add: raceBestLap_def samplePoint_def accelerationOf_def)
  have 2: "specEpisodes None closedShort = []"
    by (simp add: closedShort_def samplePoint_def accelerationOf_def)
  have 3: "specEpisodes None danglingShort = [(0, 0.5)]"
    by (simp add: danglingShort_def samplePoint_def accelerationOf_def)
  from decelerationPeriodsOf_follows_episode_rule[OF a] decelerationPeriodsOf_follows_episode_rule[OF b] decelerationPeriodsOf_follows_episode_rule[OF c] a b c 1 2 3 show ?thesis by simp
qed

section \<open>The session scenario, evaluated\<close>

lemma race_lapStartTimes: "calculateLapStartTimes [10, 20, 25] = [0, 10, 30]"
  by (simp add: calculateLapStartTimes_def)

lemma race_bestLapScan: "bestLapScan [10, 20, 25] = 1"
  by (simp add: bestLapScan_def)

lemma race_lapDataOf_best: "lapDataOf raceScenario (Suc 0) = raceBestLap"
  by (simp add: lapDataOf_def lapEndTimeOf_def raceScenario_def raceBestLap_def
      race_lapStartTimes samplePoint_def)

lemma race_decelerationPeriods:
  "decelerationPeriodsOf raceBestLap =
     [\<lparr> startTime = 15, endTime = 17, duration = 2, startIndex = 1, endIndex = 3 \<rparr>,
      \<lparr> startTime = 22, endTime = 24, duration = 2, startIndex = 4, endIndex = 6 \<rparr>]"
  by (simp add: decelerationPeriodsOf_def raceBestLap_def samplePoint_def Let_def)

lemma race_accelerationPeriods:
  "findAccelerationPeriods raceBestLap =
     [\<lparr> startTime = 10, endTime = 15, duration = 5, maxSpeed = 0, maxSpeedTime = 15, speedIncrease = 0 \<rparr>,
      \<lparr> startTime = 17, endTime = 22, duration = 5, maxSpeed = 0, maxSpeedTime = 22, speedIncrease = 0 \<rparr>,
      \<lparr> startTime = 24, endTime = 30, duration = 6, maxSpeed = 0, maxSpeedTime = 30, speedIncrease = 0 \<rparr>]"
  unfolding findAccelerationPeriods_def race_decelerationPeriods
  by (simp add: sectorsBetween_def raceBestLap_def samplePoint_def Let_def)

lemma race_closestIndex1: "closestIndexTo raceBestLap (74 / 5) = 1"
  by (simp add: closestIndexTo_def raceBestLap_def samplePoint_def Let_def)

lemma race_closestIndex2: "closestIndexTo raceBestLap (109 / 5) = 4"
  by (simp add: closestIndexTo_def raceBestLap_def samplePoint_def Let_def)

lemma race_perpendicular1:
  "createPerpendicularLine (raceBestLap ! Suc 0) raceBestLap (Suc 0) = raceGate1"
  by (simp add: createPerpendicularLine_def raceBestLap_def samplePoint_def Let_def cos_60
      raceGate1_def)

lemma race_perpendicular2: "createPerpendicularLine (raceBestLap ! 4) raceBestLap 4 = raceGate2"
  by (simp add: createPerpendicularLine_def raceBestLap_def samplePoint_def Let_def cos_60
      raceGate2_def)

lemma race_bestLap_last: "raceBestLap \<noteq> []" "time (last raceBestLap) = 30"
  by (simp_all add: raceBestLap_def samplePoint_def)

lemma race_bordersLoop:
  "bordersLoop raceBestLap 30 (findAccelerationPeriods raceBestLap) [] = [raceGate1, raceGate2]"
  unfolding race_accelerationPeriods
  by (simp add: Let_def race_closestIndex1 race_closestIndex2 race_perpendicular1
      race_perpendicular2)

lemma race_createSectorBorders:
  "createSectorBorders raceBestLap (findAccelerationPeriods raceBestLap) = Inr [raceGate1, raceGate2]"
  unfolding createSectorBorders_def
  by (simp add: race_bestLap_last race_bordersLoop raceGate1_def raceGate2_def)

lemma race_sectorTimes0:
  "calculateLapSectorTimes (raceScenario\<lparr> sectorBorders := [raceGate1, raceGate2] \<rparr>) 0 = Inr [10]"
  by (simp add: raceScenario_def calculateLapSectorTimes_def lapDataOf_def lapEndTimeOf_def
      race_lapStartTimes samplePoint_def raceGate1_def raceGate2_def findBorderCrossing_def
      pairIntersection_def lineSegmentIntersection_def distanceToLineSegment_def Let_def)

lemma race_sectorTimes1:
  "calculateLapSectorTimes (raceScenario\<lparr> sectorBorders := [raceGate1, raceGate2] \<rparr>) (Suc 0)
     = Inr [5, 7, 8]"
  by (simp add: raceScenario_def calculateLapSectorTimes_def lapDataOf_def lapEndTimeOf_def
      race_lapStartTimes samplePoint_def raceGate1_def raceGate2_def findBorderCrossing_def
      pairIntersection_def lineSegmentIntersection_def distanceToLineSegment_def Let_def)

lemma race_sectorTimes2:
  "calculateLapSectorTimes (raceScenario\<lparr> sectorBorders := [raceGate1, raceGate2] \<rparr>) (Suc (Suc 0))
     = Inr [25]"
  by (simp add: raceScenario_def calculateLapSectorTimes_def lapDataOf_def lapEndTimeOf_def
      race_lapStartTimes samplePoint_def raceGate1_def raceGate2_def findBorderCrossing_def
      pairIntersection_def lineSegmentIntersection_def distanceToLineSegment_def Let_def)

lemma race_generateSectorSplits: "generateSectorSplits raceScenario = Inr raceSplit"
proof -
  have a: "lapTimes raceScenario = [10, 20, 25]" "telemetryData raceScenario \<noteq> []"
    "list_ex (\<lambda>point. lat point \<noteq> 0 \<and> lon point \<noteq> 0) (telemetryData raceScenario)"
    by (simp_all add: raceScenario_def samplePoint_def)
  have all: "calculateAllLapSectorTimes (raceScenario\<lparr> sectorBorders := [raceGate1, raceGate2] \<rparr>)
      = Inr raceSplit"
    using race_sectorTimes0 race_sectorTimes1 race_sectorTimes2
    by (simp add: calculateAllLapSectorTimes_def a raceSplit_def)
  have accne: "findAccelerationPeriods raceBestLap \<noteq> []"
    by (simp add: race_accelerationPeriods)
  show ?thesis
    unfolding generateSectorSplits_def
    using all
    by (simp add: a race_bestLapScan race_lapDataOf_best race_bestLap_last accne
        race_createSectorBorders Let_def)
qed

section \<open>Properties of the border placement\<close>

lemma bordersLoop_eq:
  "bordersLoop lapData (time (last lapData)) periods borders =
     borders @ map (\<lambda>p. borderAt lapData (endTime p - 0.2)) (keptPeriods lapData periods)"
  by (induction periods arbitrary: borders) (simp_all add: Let_def borderAt_def keptPeriods_def)

lemma btime_createPerpendicularLine:
  "btime (createPerpendicularLine centerPoint lapData centerIndex) = time centerPoint"
  by (simp add: createPerpendicularLine_def Let_def)

lemma sectorsLoop_endTimes:
  "endTime ` set (fst (sectorsLoop ds s sectors)) \<subseteq> endTime ` set sectors \<union> startTime ` set ds"
proof (induction ds arbitrary: s sectors)
  case Nil
  then show ?case by simp
next
  case (Cons d ds)
  have "endTime ` set (fst (sectorsLoop ds (endTime d)
           (if startTime d - s > 0
            then sectors @ [\<lparr> startTime = s, endTime = startTime d, duration = startTime d - s \<rparr>]
            else sectors)))
        \<subseteq> endTime ` set (if startTime d - s > 0
            then sectors @ [\<lparr> startTime = s, endTime = startTime d, duration = startTime d - s \<rparr>]
            else sectors) \<union> startTime ` set ds"
    by (rule Cons.IH)
  then show ?case by (auto simp: Let_def split: if_splits)
qed

lemma sectorsBetween_endTimes:
  "endTime ` set (sectorsBetween lapData ds) \<subseteq> insert (time (last lapData)) (startTime ` set ds)"
proof -
  obtain sectors s where r: "sectorsLoop ds (time (hd lapData)) [] = (sectors, s)"
    by (cases "sectorsLoop ds (time (hd lapData)) []")
  from sectorsLoop_endTimes[of ds "time (hd lapData)" "[]"] r
  have "endTime ` set sectors \<subseteq> startTime ` set ds" by simp
  with r show ?thesis by (auto simp: sectorsBetween_def Let_def)
qed

lemma mergeLoop_endTimes:
  "endTime ` set (mergeLoop xs merged) \<subseteq> endTime ` set xs \<union> endTime ` set merged"
proof (induction xs merged rule: mergeLoop.induct)
  case (1 merged)
  then show ?case by simp
next
  case (2 sector merged)
  have "set (butlast merged) \<subseteq> set merged" by (auto dest: in_set_butlastD)
  then show ?case by (auto simp: image_iff)
next
  case (3 sector nextSector rest merged)
  then show ?case by (auto split: if_splits)
qed

lemma findAccelerationPeriods_endTimes:
  "endTime ` set (findAccelerationPeriods lapData)
     \<subseteq> insert (time (last lapData)) (startTime ` set (decelerationPeriodsOf lapData))"
proof (cases "length lapData < 2")
  case True
  then show ?thesis by (simp add: findAccelerationPeriods_def)
next
  case False
  have "endTime ` set (findAccelerationPeriods lapData)
      = endTime ` set (mergeLoop (sectorsBetween lapData (decelerationPeriodsOf lapData)) [])"
    using False by (simp add: findAccelerationPeriods_def image_image)
  also have "\<dots> \<subseteq> endTime ` set (sectorsBetween lapData (decelerationPeriodsOf lapData))"
    using mergeLoop_endTimes[of _ "[]"] by simp
  also have "\<dots> \<subseteq> insert (time (last lapData)) (startTime ` set (decelerationPeriodsOf lapData))"
    by (rule sectorsBetween_endTimes)
  finally show ?thesis .
qed


text \<open>
  The claim as stated fails on the reference lap of the session scenario. The retained
  deceleration episodes run from 15 to 17 and from 22 to 24. The borders are built for
  the border times 15 - 0.2 and 22 - 0.2, at the samples of time 15 and 22; the times
  17 - 0.2 and 24 - 0.2 would give borders at the samples of time 17 and 24.
\<close>

theorem gates_not_at_deceleration_end_counterexample:
  "map startTime (decelerationPeriodsOf raceBestLap) = [15, 22]
   \<and> map endTime (decelerationPeriodsOf raceBestLap) = [17, 24]
   \<and> createSectorBorders raceBestLap (findAccelerationPeriods raceBestLap)
        = Inr [borderAt raceBestLap (15 - 0.2), borderAt raceBestLap (22 - 0.2)]
   \<and> btime (borderAt raceBestLap (15 - 0.2)) = 15
   \<and> btime (borderAt raceBestLap (22 - 0.2)) = 22
   \<and> btime (borderAt raceBestLap (17 - 0.2)) = 17
   \<and> btime (borderAt raceBestLap (24 - 0.2)) = 24"
proof -
  have "closestIndexTo raceBestLap (84 / 5) = 3" "closestIndexTo raceBestLap (119 / 5) = 6"
    by (simp_all add: closestIndexTo_def raceBestLap_def samplePoint_def Let_def)
  then have "btime (borderAt raceBestLap (17 - 0.2)) = 17" "btime (borderAt raceBestLap (24 - 0.2)) = 24"
    by (simp_all add: borderAt_def btime_createPerpendicularLine raceBestLap_def samplePoint_def)
  moreover have "borderAt raceBestLap (15 - 0.2) = raceGate1" "borderAt raceBestLap (22 - 0.2) = raceGate2"
    by (simp_all add: borderAt_def race_closestIndex1 race_closestIndex2 race_perpendicular1
        race_perpendicular2)
  ultimately show ?thesis
    using race_createSectorBorders
    by (simp add: race_decelerationPeriods raceGate1_def raceGate2_def)
qed

text \<open>
  Claim C1, as amended. For the reference lap, \<^verbatim>\<open>createSectorBorders\<close> goes through the
  merged sectors (the spans without deceleration) returned by
  \<^verbatim>\<open>findAccelerationPeriods\<close>. A sector is skipped whenever its border time, the
  sector's end time minus 0.2 s, is less than 2.0 s before the time of the lap's last
  sample. For every other sector one border is created, and the borders are sorted by
  time. The end time of a sector that is not skipped is the start time of a retained
  deceleration episode, so each border time is 0.2 s before a deceleration starts.
  The border lies at the sample found by the nearest-sample search for the border
  time, and carries the time of that sample.
\<close>

theorem createSectorBorders_places_gates_before_deceleration:
  assumes "lapData \<noteq> []"
  shows "createSectorBorders lapData (findAccelerationPeriods lapData)
        = Inr (sort_key btime (map (\<lambda>p. borderAt lapData (endTime p - 0.2))
                 (keptPeriods lapData (findAccelerationPeriods lapData))))
    \<and> (\<forall>p \<in> set (keptPeriods lapData (findAccelerationPeriods lapData)).
          (\<exists>e \<in> set (decelerationPeriodsOf lapData). endTime p = startTime e)
          \<and> btime (borderAt lapData (endTime p - 0.2))
              = time (lapData ! closestIndexTo lapData (endTime p - 0.2)))
    \<and> (\<forall>p \<in> set (findAccelerationPeriods lapData).
          p \<in> set (keptPeriods lapData (findAccelerationPeriods lapData))
          \<longleftrightarrow> \<not> time (last lapData) - (endTime p - 0.2) < 2.0)"
proof (intro conjI ballI)
  show "createSectorBorders lapData (findAccelerationPeriods lapData)
        = Inr (sort_key btime (map (\<lambda>p. borderAt lapData (endTime p - 0.2))
                 (keptPeriods lapData (findAccelerationPeriods lapData))))"
    using assms by (simp add: createSectorBorders_def bordersLoop_eq keptPeriods_def)
next
  fix p assume p: "p \<in> set (keptPeriods lapData (findAccelerationPeriods lapData))"
  then have "endTime p \<in> endTime ` set (findAccelerationPeriods lapData)"
    and far: "\<not> time (last lapData) - (endTime p - 0.2) < 2.0"
    by (auto simp: keptPeriods_def)
  with findAccelerationPeriods_endTimes[of lapData]
  have "endTime p = time (last lapData) \<or> endTime p \<in> startTime ` set (decelerationPeriodsOf lapData)"
    by auto
  moreover from far have "endTime p \<noteq> time (last lapData)" by auto
  ultimately show "\<exists>e \<in> set (decelerationPeriodsOf lapData). endTime p = startTime e"
    by auto
  show "btime (borderAt lapData (endTime p - 0.2))
      = time (lapData ! closestIndexTo lapData (endTime p - 0.2))"
    by (simp add: borderAt_def btime_createPerpendicularLine)
next
  fix p assume "p \<in> set (findAccelerationPeriods lapData)"
  then show "p \<in> set (keptPeriods lapData (findAccelerationPeriods lapData))
          \<longleftrightarrow> \<not> time (last lapData) - (endTime p - 0.2) < 2.0"
    by (simp add: keptPeriods_def)
qed

theorem createSectorBorders_places_gates_before_deceleration_witness:
  "raceBestLap \<noteq> []
   \<and> createSectorBorders raceBestLap (findAccelerationPeriods raceBestLap)
        = Inr [raceGate1, raceGate2]
   \<and> map endTime (keptPeriods raceBestLap (findAccelerationPeriods raceBestLap)) = [15, 22]
   \<and> map startTime (decelerationPeriodsOf raceBestLap) = [15, 22]"
  using createSectorBorders_places_gates_before_deceleration[OF race_bestLap_last(1)]
    race_bestLap_last race_createSectorBorders
  by (simp add: race_decelerationPeriods race_accelerationPeriods keptPeriods_def)

section \<open>Properties of the per-lap sector timing\<close>

lemma lapStartLoop_length: "length (lapStartLoop laps c) = length laps - 1"
  by (induction laps c rule: lapStartLoop.induct) auto

lemma lapStartLoop_nth:
  "Suc i < length laps \<Longrightarrow> lapStartLoop laps c ! i = c + sum_list (take (Suc i) laps)"
proof (induction laps c arbitrary: i rule: lapStartLoop.induct)
  case (3 t u ts c)
  show ?case
  proof (cases i)
    case 0
    then show ?thesis by simp
  next
    case (Suc j)
    with "3.prems" have "Suc j < length (u # ts)" by simp
    from "3.IH"[OF this] Suc show ?thesis by simp
  qed
qed simp_all

lemma calculateLapStartTimes_length:
  "laps \<noteq> [] \<Longrightarrow> length (calculateLapStartTimes laps) = length laps"
  by (cases laps) (simp_all add: calculateLapStartTimes_def lapStartLoop_length)

lemma calculateLapStartTimes_nth:
  "i < length laps \<Longrightarrow> calculateLapStartTimes laps ! i = sum_list (take i laps)"
  by (cases i) (simp_all add: calculateLapStartTimes_def lapStartLoop_nth)

lemma lapEndTimeOf_eq:
  assumes "lapIndex < length (lapTimes a)"
    and "lapStartTimes a = calculateLapStartTimes (lapTimes a)"
  shows "lapEndTimeOf a lapIndex = lapStartTimes a ! lapIndex + lapTimes a ! lapIndex"
proof (cases "lapIndex < length (lapStartTimes a) - 1")
  case False
  then show ?thesis by (simp add: lapEndTimeOf_def)
next
  case True
  from assms(1) have ne: "lapTimes a \<noteq> []" by auto
  with True assms have s: "Suc lapIndex < length (lapTimes a)"
    by (simp add: calculateLapStartTimes_length)
  have "sum_list (take (Suc lapIndex) (lapTimes a))
      = sum_list (take lapIndex (lapTimes a)) + lapTimes a ! lapIndex"
    using assms(1) by (simp add: take_Suc_conv_app_nth)
  with True s assms show ?thesis
    by (simp add: lapEndTimeOf_def calculateLapStartTimes_nth)
qed

lemma lapEndTimeOf_ignores_lapSectorTimes:
  "lapEndTimeOf (a\<lparr> lapSectorTimes := x \<rparr>) lapIndex = lapEndTimeOf a lapIndex"
  by (simp add: lapEndTimeOf_def)

lemma lapDataOf_ignores_lapSectorTimes:
  "lapDataOf (a\<lparr> lapSectorTimes := x \<rparr>) lapIndex = lapDataOf a lapIndex"
  by (simp add: lapDataOf_def lapEndTimeOf_ignores_lapSectorTimes)

lemma calculateLapSectorTimes_ignores_lapSectorTimes:
  "calculateLapSectorTimes (a\<lparr> lapSectorTimes := x \<rparr>) lapIndex = calculateLapSectorTimes a lapIndex"
  unfolding calculateLapSectorTimes_def lapEndTimeOf_ignores_lapSectorTimes
    lapDataOf_ignores_lapSectorTimes
  by (simp add: Let_def)

lemma sectorLoop_sum:
  assumes "lapData \<noteq> []" and "\<forall>p \<in> set lapData. lo \<le> time p \<and> time p \<le> hi"
    and "s \<le> hi"
  shows "\<exists>acc' s'. sectorLoop lapData bs s acc = Inr (acc @ acc', s')
      \<and> s \<le> s' \<and> s' \<le> hi \<and> sum_list acc' = s' - s \<and> (\<forall>d \<in> set acc'. 0 < d)
      \<and> length acc' \<le> length bs"
  using assms(3)
proof (induction bs arbitrary: s acc)
  case Nil
  then show ?case by simp
next
  case (Cons b bs)
  from findBorderCrossing_total[OF assms(1)] obtain c where c: "findBorderCrossing lapData b = Inr c"
    by blast
  from findBorderCrossing_range[OF c assms(2)] have chi: "c \<le> hi" by simp
  show ?case
  proof (cases "c > s")
    case True
    from Cons.IH[OF chi, of "acc @ [c - s]"] obtain acc' s' where
      h: "sectorLoop lapData bs c (acc @ [c - s]) = Inr ((acc @ [c - s]) @ acc', s')"
        "c \<le> s'" "s' \<le> hi" "sum_list acc' = s' - c" "\<forall>d \<in> set acc'. 0 < d"
        "length acc' \<le> length bs"
      by blast
    show ?thesis
      apply (rule exI[of _ "(c - s) # acc'"], rule exI[of _ s'])
      using h c True by simp
  next
    case False
    from Cons.IH[OF Cons.prems, of acc] obtain acc' s' where
      h: "sectorLoop lapData bs s acc = Inr (acc @ acc', s')"
        "s \<le> s'" "s' \<le> hi" "sum_list acc' = s' - s" "\<forall>d \<in> set acc'. 0 < d"
        "length acc' \<le> length bs"
      by blast
    show ?thesis
      apply (rule exI[of _ acc'], rule exI[of _ s'])
      using h c False by simp
  qed
qed

text \<open>
  Claim C2. For a lap index of the session, with the lap start times as computed by
  \<^verbatim>\<open>calculateLapStartTimes\<close>, the sector times of the lap add up to its lap time
  (exactly in real arithmetic, hence within 0.001 s): no residual time is dropped.
  With no border or no sample in the lap's range the result is the lap time alone.
\<close>

theorem calculateLapSectorTimes_sum_is_lapTime:
  assumes "lapIndex < length (lapTimes a)"
    and "lapStartTimes a = calculateLapStartTimes (lapTimes a)"
  shows "\<exists>sectorTimes. calculateLapSectorTimes a lapIndex = Inr sectorTimes
      \<and> sum_list sectorTimes = lapTimes a ! lapIndex
      \<and> \<bar>sum_list sectorTimes - lapTimes a ! lapIndex\<bar> \<le> 1 / 1000
      \<and> (sectorBorders a = [] \<or> lapDataOf a lapIndex = [] \<longrightarrow>
            sectorTimes = [lapTimes a ! lapIndex])"
proof (cases "lapDataOf a lapIndex = [] \<or> sectorBorders a = []")
  case True
  then show ?thesis by (auto simp: calculateLapSectorTimes_def)
next
  case False
  define lo where "lo = lapStartTimes a ! lapIndex"
  define hi where "hi = lapEndTimeOf a lapIndex"
  have rng: "\<forall>p \<in> set (lapDataOf a lapIndex). lo \<le> time p \<and> time p \<le> hi"
    by (auto simp: lapDataOf_def lo_def hi_def)
  from False obtain p where "p \<in> set (lapDataOf a lapIndex)" by (cases "lapDataOf a lapIndex") auto
  with rng have lohi: "lo \<le> hi" by force
  from False have ne: "lapDataOf a lapIndex \<noteq> []" by simp
  from sectorLoop_sum[OF ne rng lohi, of "sectorBorders a" "[]"] obtain acc' s' where
    h: "sectorLoop (lapDataOf a lapIndex) (sectorBorders a) lo [] = Inr (acc', s')"
       "lo \<le> s'" "s' \<le> hi" "sum_list acc' = s' - lo"
    by auto
  have hi_eq: "hi = lo + lapTimes a ! lapIndex"
    unfolding hi_def lo_def by (rule lapEndTimeOf_eq[OF assms])
  show ?thesis using False h hi_eq
    by (auto simp: calculateLapSectorTimes_def Let_def lo_def[symmetric] hi_def[symmetric])
qed

theorem calculateLapSectorTimes_sum_is_lapTime_witness:
  "1 < length (lapTimes timingScenario)
   \<and> lapStartTimes timingScenario = calculateLapStartTimes (lapTimes timingScenario)
   \<and> calculateLapSectorTimes timingScenario 1 = Inr [3, 17]
   \<and> sum_list [3, 17 :: real] = lapTimes timingScenario ! 1"
proof -
  have a: "1 < length (lapTimes timingScenario)"
    and b: "lapStartTimes timingScenario = calculateLapStartTimes (lapTimes timingScenario)"
    by (simp_all add: timingScenario_def)
  have c: "calculateLapSectorTimes timingScenario 1 = Inr [3, 17]"
    by (simp add: timingScenario_def calculateLapSectorTimes_def lapDataOf_def lapEndTimeOf_def
        calculateLapStartTimes_def samplePoint_def segmentBorder_def findBorderCrossing_def
        pairIntersection_def lineSegmentIntersection_def Let_def)
  from calculateLapSectorTimes_sum_is_lapTime[OF a b] a b c show ?thesis by auto
qed

text \<open>
  The claim as stated fails on the session scenario: the segmentation yields two
  borders, the third lap has samples, none of its segments meets a border, and its
  sector times are the single duration 25, not three durations.
\<close>

theorem two_borders_one_sector_counterexample:
  "generateSectorSplits raceScenario = Inr raceSplit
   \<and> length (sectorBorders raceSplit) = 2
   \<and> lapDataOf raceSplit 2 \<noteq> []
   \<and> crossingScan (lapDataOf raceSplit 2) raceGate1 = None
   \<and> crossingScan (lapDataOf raceSplit 2) raceGate2 = None
   \<and> calculateLapSectorTimes raceSplit 2 = Inr [25]
   \<and> length [25 :: real] \<noteq> 3"
proof -
  have "calculateLapSectorTimes raceSplit 2 = Inr [25]"
    using race_sectorTimes2
    by (simp add: raceSplit_def calculateLapSectorTimes_ignores_lapSectorTimes numeral_2_eq_2)
  moreover have "lapDataOf raceSplit 2 = [samplePoint 30 100 60 5, samplePoint 40 80 60 6, samplePoint 50 80 60 7]"
    by (simp add: raceSplit_def raceScenario_def lapDataOf_def lapEndTimeOf_def race_lapStartTimes
        samplePoint_def)
  moreover have "crossingScan [samplePoint 30 100 60 5, samplePoint 40 80 60 6, samplePoint 50 80 60 7] raceGate1 = None"
    "crossingScan [samplePoint 30 100 60 5, samplePoint 40 80 60 6, samplePoint 50 80 60 7] raceGate2 = None"
    by (simp_all add: samplePoint_def raceGate1_def raceGate2_def pairIntersection_def
        lineSegmentIntersection_def)
  ultimately show ?thesis
    using race_generateSectorSplits by (simp add: raceSplit_def)
qed

text \<open>
  Claim C4, as amended. With exactly two borders and a lap that has samples, the sector
  times are at most three positive durations that add up to the lap time. There are
  exactly three of them if and only if the two crossing times found by
  \<^verbatim>\<open>findBorderCrossing\<close> (by intersection or by the closest-point fallback) lie strictly
  between the lap start and the lap end and strictly increase; then the durations are
  the consecutive differences. A crossing that is not after the running sector start
  adds no sector.
\<close>

theorem calculateLapSectorTimes_two_borders:
  assumes "lapIndex < length (lapTimes a)"
    and "lapStartTimes a = calculateLapStartTimes (lapTimes a)"
    and "sectorBorders a = [border1, border2]"
    and "lapDataOf a lapIndex \<noteq> []"
  shows "\<exists>sectorTimes c1 c2.
      calculateLapSectorTimes a lapIndex = Inr sectorTimes
      \<and> findBorderCrossing (lapDataOf a lapIndex) border1 = Inr c1
      \<and> findBorderCrossing (lapDataOf a lapIndex) border2 = Inr c2
      \<and> length sectorTimes \<le> 3
      \<and> (\<forall>d \<in> set sectorTimes. 0 < d)
      \<and> sum_list sectorTimes = lapTimes a ! lapIndex
      \<and> (length sectorTimes = 3 \<longleftrightarrow>
            lapStartTimes a ! lapIndex < c1 \<and> c1 < c2 \<and> c2 < lapEndTimeOf a lapIndex)
      \<and> (length sectorTimes = 3 \<longrightarrow>
            sectorTimes = [c1 - lapStartTimes a ! lapIndex, c2 - c1, lapEndTimeOf a lapIndex - c2])"
proof -
  define lo where "lo = lapStartTimes a ! lapIndex"
  define hi where "hi = lapEndTimeOf a lapIndex"
  define lapData where "lapData = lapDataOf a lapIndex"
  have rng: "\<forall>p \<in> set lapData. lo \<le> time p \<and> time p \<le> hi"
    by (auto simp: lapDataOf_def lo_def hi_def lapData_def)
  have ne: "lapData \<noteq> []" using assms(4) by (simp add: lapData_def)
  from findBorderCrossing_total[OF ne] obtain c1 c2 where
    c: "findBorderCrossing lapData border1 = Inr c1" "findBorderCrossing lapData border2 = Inr c2"
    by blast
  from findBorderCrossing_range[OF c(1) rng] findBorderCrossing_range[OF c(2) rng]
  have b: "lo \<le> c1" "c1 \<le> hi" "lo \<le> c2" "c2 \<le> hi" by auto
  have hi_eq: "hi = lo + lapTimes a ! lapIndex"
    unfolding hi_def lo_def by (rule lapEndTimeOf_eq[OF assms(1,2)])
  have "calculateLapSectorTimes a lapIndex =
     Inr (if c1 > lo
          then (if c2 > c1 then (if c2 < hi then [c1 - lo, c2 - c1, hi - c2] else [c1 - lo, c2 - c1])
                else (if c1 < hi then [c1 - lo, hi - c1] else [c1 - lo]))
          else (if c2 > lo then (if c2 < hi then [c2 - lo, hi - c2] else [c2 - lo])
                else (if lo < hi then [hi - lo] else [])))"
    using ne c assms(3)
    by (simp add: calculateLapSectorTimes_def Let_def lo_def[symmetric] hi_def[symmetric]
        lapData_def[symmetric])
  then show ?thesis
    using c b hi_eq
    unfolding lo_def[symmetric] hi_def[symmetric] lapData_def[symmetric]
    by (auto split: if_splits)
qed

theorem calculateLapSectorTimes_two_borders_witness:
  "1 < length (lapTimes raceSplit)
   \<and> lapStartTimes raceSplit = calculateLapStartTimes (lapTimes raceSplit)
   \<and> sectorBorders raceSplit = [raceGate1, raceGate2]
   \<and> lapDataOf raceSplit 1 \<noteq> []
   \<and> calculateLapSectorTimes raceSplit 1 = Inr [5, 7, 8]
   \<and> sum_list [5, 7, 8 :: real] = lapTimes raceSplit ! 1"
proof -
  have a: "1 < length (lapTimes raceSplit)"
    and b: "lapStartTimes raceSplit = calculateLapStartTimes (lapTimes raceSplit)"
    and c: "sectorBorders raceSplit = [raceGate1, raceGate2]"
    by (simp_all add: raceSplit_def raceScenario_def)
  have d: "lapDataOf raceSplit 1 \<noteq> []"
    by (simp add: raceSplit_def raceScenario_def lapDataOf_def lapEndTimeOf_def race_lapStartTimes
        samplePoint_def)
  have e: "calculateLapSectorTimes raceSplit 1 = Inr [5, 7, 8]"
    using race_sectorTimes1
    by (simp add: raceSplit_def calculateLapSectorTimes_ignores_lapSectorTimes)
  from calculateLapSectorTimes_two_borders[OF a b c d] a b c d e show ?thesis
    by (simp add: raceSplit_def raceScenario_def)
qed

section \<open>The diff to the best lap on the session scenario\<close>

lemma race_findBestLapIndex: "findBestLapIndex [10, 20, 25] = 1"
  by (simp add: findBestLapIndex_def race_bestLapScan)

lemma race_corresponding30: "findCorrespondingTimeInBestLap (raceDiffStart\<lparr> diffToBestData := d \<rparr>) (samplePoint 30 100 60 5) 0 = Inr (Some 30)"
  by (simp add: findCorrespondingTimeInBestLap_def raceDiffStart_def raceScenario_def race_lapStartTimes
     raceBestLap_def samplePoint_def findIndex_def createPerpendicularLine_def cos_60 Let_def
     findBorderCrossing_def pairIntersection_def lineSegmentIntersection_def distanceToLineSegment_def)


lemma race_corresponding5: "findCorrespondingTimeInBestLap (raceDiffStart\<lparr> diffToBestData := d \<rparr>) (samplePoint 5 30 60 (1 / 2)) 5 = Inr (Some 10)"
  by (simp add: findCorrespondingTimeInBestLap_def raceDiffStart_def raceScenario_def race_lapStartTimes
     raceBestLap_def samplePoint_def findIndex_def createPerpendicularLine_def cos_60 Let_def
     findBorderCrossing_def pairIntersection_def lineSegmentIntersection_def distanceToLineSegment_def)

lemma race_corresponding10: "findCorrespondingTimeInBestLap (raceDiffStart\<lparr> diffToBestData := d \<rparr>) (samplePoint 10 100 60 1) 10 = Inr None"
  by (simp add: findCorrespondingTimeInBestLap_def raceDiffStart_def raceScenario_def race_lapStartTimes
     raceBestLap_def samplePoint_def findIndex_def createPerpendicularLine_def cos_60 Let_def
     findBorderCrossing_def pairIntersection_def lineSegmentIntersection_def distanceToLineSegment_def)

lemma race_corresponding40: "findCorrespondingTimeInBestLap (raceDiffStart\<lparr> diffToBestData := d \<rparr>) (samplePoint 40 80 60 6) 10 = Inr None"
  by (simp add: findCorrespondingTimeInBestLap_def raceDiffStart_def raceScenario_def race_lapStartTimes
     raceBestLap_def samplePoint_def findIndex_def createPerpendicularLine_def cos_60 Let_def
     findBorderCrossing_def pairIntersection_def lineSegmentIntersection_def distanceToLineSegment_def)

lemma race_corresponding50: "findCorrespondingTimeInBestLap (raceDiffStart\<lparr> diffToBestData := d \<rparr>) (samplePoint 50 80 60 7) 20 = Inr (Some 30)"
  by (simp add: findCorrespondingTimeInBestLap_def raceDiffStart_def raceScenario_def race_lapStartTimes
     raceBestLap_def samplePoint_def findIndex_def createPerpendicularLine_def cos_60 Let_def
     findBorderCrossing_def pairIntersection_def lineSegmentIntersection_def distanceToLineSegment_def)

lemma samplePoint_sel: "time (samplePoint t v la lo) = t" "speed (samplePoint t v la lo) = v"
  "lat (samplePoint t v la lo) = la" "lon (samplePoint t v la lo) = lo"
  "heading (samplePoint t v la lo) = 0"
  by (simp_all add: samplePoint_def)

lemma raceDiffStart_same: "raceDiffStart\<lparr> diffToBestData := [None, None, None, None, None, None, None, None, None, None, None] \<rparr> = raceDiffStart"
  by (simp add: raceDiffStart_def)

lemma raceDiffStart_fields: "lapStartTimes (raceDiffStart\<lparr> diffToBestData := d \<rparr>) = [0, 10, 30]"
  "bestLapIndex (raceDiffStart\<lparr> diffToBestData := d \<rparr>) = 1"
  "bestLapData (raceDiffStart\<lparr> diffToBestData := d \<rparr>) = raceBestLap"
  "lapTimes (raceDiffStart\<lparr> diffToBestData := d \<rparr>) = [10, 20, 25]"
  "telemetryData (raceDiffStart\<lparr> diffToBestData := d \<rparr>) = telemetryData raceScenario"
  by (simp_all add: raceDiffStart_def raceScenario_def race_lapStartTimes)

lemma race_lapData0: "lapDataOf (raceDiffStart\<lparr> diffToBestData := d \<rparr>) 0 = [samplePoint 5 30 60 0.5, samplePoint 10 100 60 1]"
  by (simp add: lapDataOf_def lapEndTimeOf_def raceDiffStart_def raceScenario_def race_lapStartTimes samplePoint_def)

lemma race_lapData2: "lapDataOf (raceDiffStart\<lparr> diffToBestData := d \<rparr>) 2 = [samplePoint 30 100 60 5, samplePoint 40 80 60 6, samplePoint 50 80 60 7]"
  by (simp add: lapDataOf_def lapEndTimeOf_def raceDiffStart_def raceScenario_def race_lapStartTimes samplePoint_def)

lemma race_lapDiff0: "calculateLapDiffToBest raceDiffStart 0 =
   Inr (raceDiffStart\<lparr> diffToBestData := [Some 5, None, None, None, None, None, None, None, None, None, None] \<rparr>)"
proof -
  have "calculateLapDiffToBest (raceDiffStart\<lparr> diffToBestData := [None, None, None, None, None, None, None, None, None, None, None] \<rparr>) 0 =
   Inr (raceDiffStart\<lparr> diffToBestData := [Some 5, None, None, None, None, None, None, None, None, None, None] \<rparr>)"
    unfolding calculateLapDiffToBest_def race_lapData0 raceDiffStart_fields
    by (simp add: race_bestLap_last Let_def race_corresponding5 race_corresponding10 raceDiffStart_fields findIndex_def
        raceScenario_def samplePoint_sel)
  then show ?thesis by (simp add: raceDiffStart_same)
qed


lemma race_lapDiff2: "calculateLapDiffToBest (raceDiffStart\<lparr> diffToBestData := [Some 5, Some 0, Some 0, Some 0, Some 0, Some 0, Some 0, Some 0, Some 0, None, None] \<rparr>) 2 =
   Inr (raceDiffStart\<lparr> diffToBestData := [Some 5, Some 0, Some 0, Some 0, Some 0, Some 0, Some 0, Some 0, Some (- 20), None, Some 0] \<rparr>)"
    unfolding calculateLapDiffToBest_def race_lapData2 raceDiffStart_fields
    by (simp add: race_bestLap_last Let_def race_corresponding30 race_corresponding40 race_corresponding50 raceDiffStart_fields findIndex_def
        raceScenario_def samplePoint_sel)

lemma race_zeroBestLap: "zeroBestLap (raceDiffStart\<lparr> diffToBestData := [Some 5, None, None, None, None, None, None, None, None, None, None] \<rparr>) 1
   = raceDiffStart\<lparr> diffToBestData := [Some 5, Some 0, Some 0, Some 0, Some 0, Some 0, Some 0, Some 0, Some 0, None, None] \<rparr>"
  by (simp add: zeroBestLap_def raceDiffStart_fields lapEndTimeOf_def raceScenario_def samplePoint_sel upt_rec)

lemma race_diff_init: "raceScenario\<lparr> bestLapIndex := 1, bestLapData := lapDataOf (raceScenario\<lparr> bestLapIndex := 1 \<rparr>) (Suc 0),
     diffToBestData := replicate (length (telemetryData raceScenario)) None \<rparr> = raceDiffStart"
proof -
  have "lapDataOf (raceScenario\<lparr> bestLapIndex := 1 \<rparr>) (Suc 0) = lapDataOf raceScenario (Suc 0)"
    by (simp add: lapDataOf_def lapEndTimeOf_def)
  moreover have "replicate (length (telemetryData raceScenario)) None = ([None, None, None, None, None, None, None, None, None, None, None] :: real option list)"
    by (simp add: raceScenario_def)
  ultimately show ?thesis by (simp add: raceDiffStart_def race_lapDataOf_best)
qed

lemma race_calculateDiffToBestLap: "calculateDiffToBestLap raceScenario = Inr raceDiffResult"
proof -
  have a: "lapTimes raceScenario = [10, 20, 25]" "telemetryData raceScenario \<noteq> []"
    by (simp_all add: raceScenario_def)
  have loop: "diffLapsLoop raceDiffStart [0, Suc 0, Suc (Suc 0)] =
     Inr (raceDiffStart\<lparr> diffToBestData := [Some 5, Some 0, Some 0, Some 0, Some 0, Some 0, Some 0, Some 0, Some (- 20), None, Some 0] \<rparr>)"
  proof -
    have b0: "bestLapIndex raceDiffStart = 1" by (simp add: raceDiffStart_def)
    have "diffLapsLoop raceDiffStart [0, Suc 0, Suc (Suc 0)] =
        diffLapsLoop (raceDiffStart\<lparr> diffToBestData := [Some 5, None, None, None, None, None, None, None, None, None, None] \<rparr>) [Suc 0, Suc (Suc 0)]"
      by (simp add: b0 race_lapDiff0)
    also have "\<dots> = diffLapsLoop (raceDiffStart\<lparr> diffToBestData := [Some 5, Some 0, Some 0, Some 0, Some 0, Some 0, Some 0, Some 0, Some 0, None, None] \<rparr>) [Suc (Suc 0)]"
      using race_zeroBestLap by (simp add: raceDiffStart_fields)
    also have "\<dots> = Inr (raceDiffStart\<lparr> diffToBestData := [Some 5, Some 0, Some 0, Some 0, Some 0, Some 0, Some 0, Some 0, Some (- 20), None, Some 0] \<rparr>)"
      using race_lapDiff2 by (simp add: raceDiffStart_fields numeral_2_eq_2)
    finally show ?thesis .
  qed
  have "calculateDiffToBestLap raceScenario = diffLapsLoop raceDiffStart [0, Suc 0, Suc (Suc 0)]"
    unfolding calculateDiffToBestLap_def
    by (simp add: a race_findBestLapIndex Let_def race_diff_init del: diffLapsLoop.simps)
  with loop show ?thesis by (simp only: raceDiffResult_def)
qed

text \<open>
  Claim C3 on the session scenario. The second lap is the best lap, with the time range
  from 10 to 30. The sample of time 30 (index 8) lies in that range and also starts the
  third lap. \<^verbatim>\<open>calculateDiffToBestLap\<close> first stores the diff 0 for it and then, when it
  processes the third lap, replaces that by -20, the lap progress 0 minus the progress
  20 of the best lap at the crossing time found for the sample's position. The diff of
  a sample in the time range of the best lap is therefore not always 0. The sample of
  time 40, for which no corresponding time is found, keeps the diff \<^verbatim>\<open>null\<close>.
\<close>

theorem best_lap_boundary_sample_diff_overwritten:
  "calculateDiffToBestLap raceScenario = Inr raceDiffResult
   \<and> bestLapIndex raceDiffResult = 1
   \<and> lapStartTimes raceDiffResult ! 1 = 10
   \<and> lapEndTimeOf raceDiffResult 1 = 30
   \<and> time (telemetryData raceDiffResult ! 8) = 30
   \<and> diffToBestData raceDiffResult ! 8 = Some (- 20)
   \<and> diffToBestData raceDiffResult ! 9 = None"
  using race_calculateDiffToBestLap
  by (simp add: raceDiffResult_def raceDiffStart_def raceScenario_def race_lapStartTimes
      lapEndTimeOf_def samplePoint_sel)

section \<open>Properties of the telemetry parser\<close>

lemma findHeaderFrom_None_iff:
  "findHeaderFrom ls i = None \<longleftrightarrow> (\<forall>l \<in> set ls. \<not> headerRow l)"
  by (induction ls arbitrary: i) (auto simp: headerRow_def Let_def)

lemma findHeaderFrom_Some:
  "findHeaderFrom ls i = Some h \<Longrightarrow>
     i \<le> h \<and> h - i < length ls \<and> headerRow (ls ! (h - i)) \<and> (\<forall>j < h - i. \<not> headerRow (ls ! j))"
proof (induction ls arbitrary: i)
  case Nil
  then show ?case by simp
next
  case (Cons l ls)
  show ?case
  proof (cases "headerRow l")
    case True
    with Cons.prems have "h = i" by (auto simp: headerRow_def Let_def split: if_splits)
    with True show ?thesis by simp
  next
    case False
    with Cons.prems have r: "findHeaderFrom ls (i + 1) = Some h"
      by (auto simp: headerRow_def Let_def split: if_splits)
    from Cons.IH[OF r] have ih: "i + 1 \<le> h" "h - (i + 1) < length ls"
      "headerRow (ls ! (h - (i + 1)))" "\<forall>j < h - (i + 1). \<not> headerRow (ls ! j)" by auto
    from ih(1) have e: "h - i = Suc (h - (i + 1))" by simp
    show ?thesis
    proof (intro conjI allI impI)
      show "i \<le> h" using ih(1) by simp
      show "h - i < length (l # ls)" using ih(2) e by simp
      show "headerRow ((l # ls) ! (h - i))" using ih(3) e by simp
      fix j assume "j < h - i"
      then show "\<not> headerRow ((l # ls) ! j)"
        using False ih(4) e by (cases j) auto
    qed
  qed
qed

lemma rowsLoop_eq:
  "rowsLoop pf cols ls telemetry = telemetry @ List.map_filter (rowSample pf cols) ls"
  by (induction ls arbitrary: telemetry) (auto simp: List.map_filter_simps split: option.splits)

lemma rowSample_Some_length:
  "rowSample pf cols l = Some point \<Longrightarrow> maxIndexOf cols < int (length (parseCsvLine (trim l)))"
  by (auto simp: rowSample_def Let_def split: if_splits)

lemma rowSample_short:
  "int (length (parseCsvLine (trim l))) \<le> maxIndexOf cols \<Longrightarrow> rowSample pf cols l = None"
  by (auto simp: rowSample_def Let_def)

lemma indexOfFrom_lower: "- 1 \<le> i \<Longrightarrow> - 1 \<le> indexOfFrom xs x i"
  by (induction xs arbitrary: i) auto

lemma indexOf_lower: "- 1 \<le> indexOf xs x"
  by (simp add: indexOf_def indexOfFrom_lower)

lemma max_in_set: "(a::int) \<in> S \<Longrightarrow> b \<in> S \<Longrightarrow> max a b \<in> S"
  by (simp add: max_def)

lemma maxIndexOf_in:
  "maxIndexOf cols \<in> {timeIndex cols, speedIndex cols, latAccIndex cols, lonAccIndex cols,
        altitudeIndex cols, latIndex cols, lonIndex cols, headingIndex cols}"
  unfolding maxIndexOf_def
  by (intro max_in_set) simp_all

lemma maxIndexOf_ge:
  "timeIndex cols \<le> maxIndexOf cols"
  "speedIndex cols \<le> maxIndexOf cols"
  "latAccIndex cols \<le> maxIndexOf cols"
  "lonAccIndex cols \<le> maxIndexOf cols"
  "altitudeIndex cols \<le> maxIndexOf cols"
  "latIndex cols \<le> maxIndexOf cols"
  "lonIndex cols \<le> maxIndexOf cols"
  "headingIndex cols \<le> maxIndexOf cols"
  unfolding maxIndexOf_def
       apply (rule max.cobounded1)
       apply (rule max.coboundedI2, rule max.cobounded1)
       apply (rule max.coboundedI2, rule max.coboundedI2, rule max.cobounded1)
       apply (rule max.coboundedI2, rule max.coboundedI2, rule max.coboundedI2, rule max.cobounded1)
       apply (rule max.coboundedI2, rule max.coboundedI2, rule max.coboundedI2, rule max.coboundedI2, rule max.cobounded1)
       apply (rule max.coboundedI2, rule max.coboundedI2, rule max.coboundedI2, rule max.coboundedI2, rule max.coboundedI2, rule max.cobounded1)
       apply (rule max.coboundedI2, rule max.coboundedI2, rule max.coboundedI2, rule max.coboundedI2, rule max.coboundedI2, rule max.coboundedI2, rule max.cobounded1)
       apply (rule max.coboundedI2, rule max.coboundedI2, rule max.coboundedI2, rule max.coboundedI2, rule max.coboundedI2, rule max.coboundedI2, rule max.coboundedI2, rule order_refl)
  done

lemma presentIndices_subset:
  "i \<in> set (presentIndices cols) \<Longrightarrow>
     i \<in> {timeIndex cols, speedIndex cols, latAccIndex cols, lonAccIndex cols,
        altitudeIndex cols, latIndex cols, lonIndex cols, headingIndex cols}"
  unfolding presentIndices_def by (simp only: set_filter list.set) (erule CollectE, erule conjE, assumption)

lemma presentIndices_member:
  "i \<in> {timeIndex cols, speedIndex cols, latAccIndex cols, lonAccIndex cols,
        altitudeIndex cols, latIndex cols, lonIndex cols, headingIndex cols} \<Longrightarrow> i \<noteq> - 1
   \<Longrightarrow> i \<in> set (presentIndices cols)"
  unfolding presentIndices_def by (simp only: set_filter list.set) (rule CollectI, rule conjI, assumption+)

lemma maxIndexOf_upper: "i \<in> set (presentIndices cols) \<Longrightarrow> i \<le> maxIndexOf cols"
proof -
  assume "i \<in> set (presentIndices cols)"
  then have "i \<in> {timeIndex cols, speedIndex cols, latAccIndex cols, lonAccIndex cols,
        altitudeIndex cols, latIndex cols, lonIndex cols, headingIndex cols}"
    by (rule presentIndices_subset)
  then show ?thesis
  proof (elim insertE emptyE)
    assume "i = timeIndex cols" then show ?thesis by (simp only: maxIndexOf_ge)
  next
    assume "i = speedIndex cols" then show ?thesis by (simp only: maxIndexOf_ge)
  next
    assume "i = latAccIndex cols" then show ?thesis by (simp only: maxIndexOf_ge)
  next
    assume "i = lonAccIndex cols" then show ?thesis by (simp only: maxIndexOf_ge)
  next
    assume "i = altitudeIndex cols" then show ?thesis by (simp only: maxIndexOf_ge)
  next
    assume "i = latIndex cols" then show ?thesis by (simp only: maxIndexOf_ge)
  next
    assume "i = lonIndex cols" then show ?thesis by (simp only: maxIndexOf_ge)
  next
    assume "i = headingIndex cols" then show ?thesis by (simp only: maxIndexOf_ge)
  qed
qed

lemma maxIndexOf_present:
  assumes "timeIndex cols \<noteq> - 1" and "- 1 \<le> timeIndex cols"
  shows "maxIndexOf cols = Max (set (presentIndices cols))"
proof -
  have "maxIndexOf cols \<noteq> - 1" using assms maxIndexOf_ge(1)[of cols] by linarith
  with maxIndexOf_in[of cols] have mem: "maxIndexOf cols \<in> set (presentIndices cols)"
    by (rule presentIndices_member)
  show ?thesis
  proof (rule Max_eqI[symmetric])
    show "finite (set (presentIndices cols))" by (rule finite_set)
    show "\<And>y. y \<in> set (presentIndices cols) \<Longrightarrow> y \<le> maxIndexOf cols" by (rule maxIndexOf_upper)
    show "maxIndexOf cols \<in> set (presentIndices cols)" by (rule mem)
  qed
qed

lemma resolveColumns_required:
  "timeIndex (resolveColumns headers) = indexOf headers ''Time''"
  "speedIndex (resolveColumns headers) = indexOf headers ''GPS Speed''"
  by (simp_all add: resolveColumns_def)


text \<open>
  Claim C8, as amended. \<^verbatim>\<open>parseCsvData\<close> throws in two cases only. It throws the error
  of the missing header exactly when no line passes the header test. It throws the
  error of the missing columns exactly when a header line is found and the Time column
  or the GPS Speed column (one of them is enough) is not among the fields of that line.
  In every other case, that is when a header line is found and both columns are
  resolved, the parse completes with the sample sequence. The header is the first line
  that passes the test.
\<close>

theorem parseCsvData_throws_iff:
  "(parseCsvData pf csvText = Inl (Error ''Could not find data header in CSV file'')
      \<longleftrightarrow> (\<forall>l \<in> set (splitLines csvText). \<not> headerRow l))
   \<and> (parseCsvData pf csvText = Inl (Error ''Could not find Time or GPS Speed columns'')
      \<longleftrightarrow> (\<exists>h. findHeaderFrom (splitLines csvText) 0 = Some h
            \<and> (indexOf (parseCsvLine (splitLines csvText ! h)) ''Time'' = - 1
               \<or> indexOf (parseCsvLine (splitLines csvText ! h)) ''GPS Speed'' = - 1)))
   \<and> ((\<exists>samples. parseCsvData pf csvText = Inr samples)
      \<longleftrightarrow> (\<exists>h. findHeaderFrom (splitLines csvText) 0 = Some h
            \<and> indexOf (parseCsvLine (splitLines csvText ! h)) ''Time'' \<noteq> - 1
            \<and> indexOf (parseCsvLine (splitLines csvText ! h)) ''GPS Speed'' \<noteq> - 1))
   \<and> (\<forall>h. findHeaderFrom (splitLines csvText) 0 = Some h \<longrightarrow>
          h < length (splitLines csvText) \<and> headerRow (splitLines csvText ! h)
          \<and> (\<forall>j < h. \<not> headerRow (splitLines csvText ! j)))"
proof (cases "findHeaderFrom (splitLines csvText) 0")
  case None
  then have "\<forall>l \<in> set (splitLines csvText). \<not> headerRow l"
    by (simp add: findHeaderFrom_None_iff)
  with None show ?thesis by (simp add: parseCsvData_def)
next
  case (Some h)
  from findHeaderFrom_Some[OF Some]
  have hr: "h < length (splitLines csvText)" "headerRow (splitLines csvText ! h)"
    "\<forall>j < h. \<not> headerRow (splitLines csvText ! j)" by simp_all
  then have ex: "\<not> (\<forall>l \<in> set (splitLines csvText). \<not> headerRow l)"
    using nth_mem by blast
  show ?thesis using Some hr ex
    by (simp add: parseCsvData_def Let_def resolveColumns_def)
qed


text \<open>
  Claim C10. A data row yields a sample only if the number of its parsed fields exceeds
  the largest resolved column index; for a header with a Time column that index is the
  maximum over the columns present in the header, required and optional alike. A row
  with no more fields than that index yields no sample, whatever its time and speed
  fields are, and the loop goes on with the next row. The samples of the parse are the
  samples of the rows, in row order.
\<close>

theorem rowSample_requires_all_columns:
  "(rowSample pf cols l = Some point \<longrightarrow> maxIndexOf cols < int (length (parseCsvLine (trim l))))
   \<and> (int (length (parseCsvLine (trim l))) \<le> maxIndexOf cols \<longrightarrow>
         rowSample pf cols l = None
         \<and> rowsLoop pf cols (l # ls) telemetry = rowsLoop pf cols ls telemetry)
   \<and> rowsLoop pf cols ls [] = List.map_filter (rowSample pf cols) ls
   \<and> (\<forall>headers. timeIndex (resolveColumns headers) \<noteq> - 1 \<longrightarrow>
         maxIndexOf (resolveColumns headers) = Max (set (presentIndices (resolveColumns headers))))"
proof (intro conjI impI allI)
  assume "rowSample pf cols l = Some point"
  then show "maxIndexOf cols < int (length (parseCsvLine (trim l)))"
    by (rule rowSample_Some_length)
next
  assume "int (length (parseCsvLine (trim l))) \<le> maxIndexOf cols"
  then show n: "rowSample pf cols l = None" by (rule rowSample_short)
  then show "rowsLoop pf cols (l # ls) telemetry = rowsLoop pf cols ls telemetry" by simp
next
  show "rowsLoop pf cols ls [] = List.map_filter (rowSample pf cols) ls"
    by (simp add: rowsLoop_eq)
next
  fix headers assume ne: "timeIndex (resolveColumns headers) \<noteq> - 1"
  have "- 1 \<le> timeIndex (resolveColumns headers)"
    by (simp add: resolveColumns_def indexOf_lower)
  with ne show "maxIndexOf (resolveColumns headers) = Max (set (presentIndices (resolveColumns headers)))"
    by (rule maxIndexOf_present)
qed


lemma example_lines: "splitLines exampleCsv =
   [quoted ''Time'' @ '','' @ quoted ''GPS Speed'' @ '','' @ quoted ''GPS Latitude'',
    quoted ''s'' @ '','' @ quoted ''km/h'' @ '','' @ quoted ''deg'',
    quoted ''0.5'' @ '','' @ quoted ''80'' @ '','' @ quoted ''60'',
    quoted ''1.0'' @ '','' @ quoted ''82'', [] ]"
  by (simp add: exampleCsv_def quoted_def dq_def)

lemma example_header: "findHeaderFrom (splitLines exampleCsv) 0 = Some 0"
  unfolding example_lines
  by (simp add: quoted_def dq_def trim_def isWhiteSpace_def startsWith_def)

lemma example_columns:
  "resolveColumns (parseCsvLine (quoted ''Time'' @ '','' @ quoted ''GPS Speed'' @ '','' @ quoted ''GPS Latitude''))
   = \<lparr> timeIndex = 0, speedIndex = 1, latAccIndex = - 1, lonAccIndex = - 1, altitudeIndex = - 1,
       latIndex = 2, lonIndex = - 1, headingIndex = - 1 \<rparr>"
  by (simp add: resolveColumns_def parseCsvLine_def indexOf_def quoted_def dq_def trim_def isWhiteSpace_def)

lemma example_row1:
  "rowSample exampleParseFloat \<lparr> timeIndex = 0, speedIndex = 1, latAccIndex = - 1, lonAccIndex = - 1, altitudeIndex = - 1,
       latIndex = 2, lonIndex = - 1, headingIndex = - 1 \<rparr> (quoted ''0.5'' @ '','' @ quoted ''80'' @ '','' @ quoted ''60'')
   = Some (samplePoint 0.5 80 60 0)"
  by (simp add: rowSample_def parseCsvLine_def maxIndexOf_def quoted_def dq_def trim_def isWhiteSpace_def
      exampleParseFloat_def optionalField_def samplePoint_def Let_def)

lemma example_row2_fields:
  "parseCsvLine (trim (quoted ''1.0'' @ '','' @ quoted ''82'')) = [''1.0'', ''82'']"
  by (simp add: parseCsvLine_def quoted_def dq_def trim_def isWhiteSpace_def)


lemma example_row2:
  "rowSample exampleParseFloat \<lparr> timeIndex = 0, speedIndex = 1, latAccIndex = - 1, lonAccIndex = - 1, altitudeIndex = - 1,
       latIndex = 2, lonIndex = - 1, headingIndex = - 1 \<rparr> (quoted ''1.0'' @ '','' @ quoted ''82'') = None"
  by (rule rowSample_short) (simp only: example_row2_fields, simp add: maxIndexOf_def)

lemma example_row3:
  "rowSample exampleParseFloat \<lparr> timeIndex = 0, speedIndex = 1, latAccIndex = - 1, lonAccIndex = - 1, altitudeIndex = - 1,
       latIndex = 2, lonIndex = - 1, headingIndex = - 1 \<rparr> [] = None"
  by (simp add: rowSample_def trim_def)

lemma example_parse: "parseCsvData exampleParseFloat exampleCsv = Inr [samplePoint 0.5 80 60 0]"
proof -
  have rows: "rowsLoop exampleParseFloat \<lparr> timeIndex = 0, speedIndex = 1, latAccIndex = - 1, lonAccIndex = - 1, altitudeIndex = - 1,
       latIndex = 2, lonIndex = - 1, headingIndex = - 1 \<rparr>
       [quoted ''0.5'' @ '','' @ quoted ''80'' @ '','' @ quoted ''60'', quoted ''1.0'' @ '','' @ quoted ''82'', [] ] []
       = [samplePoint 0.5 80 60 0]"
    unfolding rowsLoop.simps example_row1 example_row2 example_row3 by simp
  have d: "drop (0 + 2) (splitLines exampleCsv) =
      [quoted ''0.5'' @ '','' @ quoted ''80'' @ '','' @ quoted ''60'', quoted ''1.0'' @ '','' @ quoted ''82'', [] ]"
    unfolding example_lines by simp
  have h: "splitLines exampleCsv ! 0 = quoted ''Time'' @ '','' @ quoted ''GPS Speed'' @ '','' @ quoted ''GPS Latitude''"
    unfolding example_lines by simp
  show ?thesis
    unfolding parseCsvData_def example_header Let_def option.case d h example_columns rows
    by simp
qed

lemma noTime_lines: "splitLines noTimeColumnCsv =
   [''Lap '' @ quoted ''Time'' @ '','' @ quoted ''GPS Speed'',
    quoted ''s'' @ '','' @ quoted ''km/h'',
    quoted ''0.5'' @ '','' @ quoted ''80'', [] ]"
  by (simp add: noTimeColumnCsv_def quoted_def dq_def)

lemma noTime_header: "findHeaderFrom (splitLines noTimeColumnCsv) 0 = Some 0"
  unfolding noTime_lines
  by (simp add: quoted_def dq_def trim_def isWhiteSpace_def startsWith_def)

lemma noTime_fields:
  "parseCsvLine (''Lap '' @ quoted ''Time'' @ '','' @ quoted ''GPS Speed'') = [''Lap Time'', ''GPS Speed'']"
  by (simp add: parseCsvLine_def quoted_def dq_def trim_def isWhiteSpace_def)

text \<open>
  The claim as stated fails on a file whose first line includes both quoted words but
  has the fields Lap Time and GPS Speed: the header is found and the speed column is
  resolved (index 1), so it is not the case that neither column is resolved, and yet
  the parse throws.
\<close>

theorem parse_throws_with_speed_column_resolved_counterexample:
  "parseCsvData exampleParseFloat noTimeColumnCsv = Inl (Error ''Could not find Time or GPS Speed columns'')
   \<and> findHeaderFrom (splitLines noTimeColumnCsv) 0 = Some 0
   \<and> parseCsvLine (splitLines noTimeColumnCsv ! 0) = [''Lap Time'', ''GPS Speed'']
   \<and> indexOf (parseCsvLine (splitLines noTimeColumnCsv ! 0)) ''GPS Speed'' = 1
   \<and> indexOf (parseCsvLine (splitLines noTimeColumnCsv ! 0)) ''Time'' = - 1"
proof -
  have h: "splitLines noTimeColumnCsv ! 0 = ''Lap '' @ quoted ''Time'' @ '','' @ quoted ''GPS Speed''"
    unfolding noTime_lines by simp
  have f: "parseCsvLine (splitLines noTimeColumnCsv ! 0) = [''Lap Time'', ''GPS Speed'']"
    unfolding h by (rule noTime_fields)
  have i: "indexOf [''Lap Time'', ''GPS Speed''] ''GPS Speed'' = 1"
    "indexOf [''Lap Time'', ''GPS Speed''] ''Time'' = - 1"
    by (simp_all add: indexOf_def)
  have p: "parseCsvData exampleParseFloat noTimeColumnCsv = Inl (Error ''Could not find Time or GPS Speed columns'')"
    unfolding parseCsvData_def noTime_header Let_def option.case f resolveColumns_required i
    by simp
  from p noTime_header f i show ?thesis by (simp only: simp_thms)
qed



theorem parseCsvData_throws_iff_witness:
  "findHeaderFrom (splitLines exampleCsv) 0 = Some 0
   \<and> indexOf (parseCsvLine (splitLines exampleCsv ! 0)) ''Time'' \<noteq> - 1
   \<and> indexOf (parseCsvLine (splitLines exampleCsv ! 0)) ''GPS Speed'' \<noteq> - 1
   \<and> (\<exists>samples. parseCsvData exampleParseFloat exampleCsv = Inr samples)
   \<and> findHeaderFrom (splitLines ''no header'') 0 = None
   \<and> parseCsvData exampleParseFloat ''no header'' = Inl (Error ''Could not find data header in CSV file'')"
proof -
  have a: "findHeaderFrom (splitLines exampleCsv) 0 = Some 0" by (rule example_header)
  have h: "splitLines exampleCsv ! 0 = quoted ''Time'' @ '','' @ quoted ''GPS Speed'' @ '','' @ quoted ''GPS Latitude''"
    unfolding example_lines by simp
  have b: "indexOf (parseCsvLine (splitLines exampleCsv ! 0)) ''Time'' \<noteq> - 1"
    "indexOf (parseCsvLine (splitLines exampleCsv ! 0)) ''GPS Speed'' \<noteq> - 1"
    unfolding h resolveColumns_required[symmetric] example_columns by simp_all
  have c: "\<forall>l \<in> set (splitLines ''no header''). \<not> headerRow l"
    by (simp add: headerRow_def quoted_def dq_def trim_def isWhiteSpace_def startsWith_def)
  have ex: "\<exists>h. findHeaderFrom (splitLines exampleCsv) 0 = Some h
            \<and> indexOf (parseCsvLine (splitLines exampleCsv ! h)) ''Time'' \<noteq> - 1
            \<and> indexOf (parseCsvLine (splitLines exampleCsv ! h)) ''GPS Speed'' \<noteq> - 1"
    using a b by (intro exI[of _ 0]) simp
  note t1 = parseCsvData_throws_iff[of exampleParseFloat exampleCsv]
  note t2 = parseCsvData_throws_iff[of exampleParseFloat "''no header''"]
  from t1[THEN conjunct2, THEN conjunct2, THEN conjunct1, THEN iffD2, OF ex]
  have 1: "\<exists>samples. parseCsvData exampleParseFloat exampleCsv = Inr samples" .
  from t2[THEN conjunct1, THEN iffD2, OF c]
  have 2: "parseCsvData exampleParseFloat ''no header'' = Inl (Error ''Could not find data header in CSV file'')" .
  have 3: "findHeaderFrom (splitLines ''no header'') 0 = None"
    using c by (simp only: findHeaderFrom_None_iff)
  from a b 1 2 3 show ?thesis by (intro conjI)
qed


theorem rowSample_requires_all_columns_witness:
  "int (length (parseCsvLine (trim (quoted ''1.0'' @ '','' @ quoted ''82''))))
      \<le> maxIndexOf (resolveColumns [''Time'', ''GPS Speed'', ''GPS Latitude''])
   \<and> exampleParseFloat ''1.0'' = Some 1 \<and> exampleParseFloat ''82'' = Some 82
   \<and> rowSample exampleParseFloat (resolveColumns [''Time'', ''GPS Speed'', ''GPS Latitude''])
         (quoted ''1.0'' @ '','' @ quoted ''82'') = None
   \<and> timeIndex (resolveColumns [''Time'', ''GPS Speed'', ''GPS Latitude'']) \<noteq> - 1
   \<and> maxIndexOf (resolveColumns [''Time'', ''GPS Speed'', ''GPS Latitude'']) = 2
   \<and> parseCsvData exampleParseFloat exampleCsv = Inr [samplePoint 0.5 80 60 0]"
proof -
  let ?cols = "resolveColumns [''Time'', ''GPS Speed'', ''GPS Latitude'']"
  have cols: "?cols = \<lparr> timeIndex = 0, speedIndex = 1, latAccIndex = - 1, lonAccIndex = - 1, altitudeIndex = - 1,
       latIndex = 2, lonIndex = - 1, headingIndex = - 1 \<rparr>"
    by (simp add: resolveColumns_def indexOf_def)
  have m: "maxIndexOf ?cols = 2" unfolding cols by (simp add: maxIndexOf_def)
  have a: "int (length (parseCsvLine (trim (quoted ''1.0'' @ '','' @ quoted ''82'')))) \<le> maxIndexOf ?cols"
    unfolding m example_row2_fields by simp
  have t: "timeIndex ?cols \<noteq> - 1" unfolding cols by simp
  have e: "exampleParseFloat ''1.0'' = Some 1" "exampleParseFloat ''82'' = Some 82"
    by (simp_all add: exampleParseFloat_def)
  note t1 = rowSample_requires_all_columns[of exampleParseFloat ?cols "quoted ''1.0'' @ '','' @ quoted ''82''"]
  from t1[THEN conjunct2, THEN conjunct1, rule_format, OF a, THEN conjunct1]
  have n: "rowSample exampleParseFloat ?cols (quoted ''1.0'' @ '','' @ quoted ''82'') = None" .
  from a e n t m example_parse show ?thesis by (intro conjI)
qed

subsection \<open>Synchronisation round trip\<close>




end
